theory Spec2Isabelle
  imports Complex_Main "HOL-Library.Word" "HOL-Library.AList"
begin

section \<open>JavaScript values\<close>

text \<open>
  The classification payload is whatever \<^verbatim>\<open>JSON.parse\<close> returns, and TypeScript's
  types are erased at run time, so the payload and everything copied out of it are
  modelled as untyped JavaScript values. A finite number is a rational (every finite
  double is one); the non-finite doubles are separate constructors. An object is an
  association list read with \<open>map_of\<close>.
\<close>

datatype number = Num rat | Infinity | NegInfinity | NaN

datatype jsval =
    Undefined
  | Null
  | JBool bool
  | JNum number
  | JStr string
  | JArr "jsval list"
  | JObj "(string \<times> jsval) list"

text \<open>ToBoolean: the falsy values are undefined, null, false, 0, NaN and the empty string.\<close>

fun truthy :: "jsval \<Rightarrow> bool" where
  "truthy Undefined = False"
| "truthy Null = False"
| "truthy (JBool b) = b"
| "truthy (JNum n) = (n \<noteq> Num 0 \<and> n \<noteq> NaN)"
| "truthy (JStr s) = (s \<noteq> [])"
| "truthy (JArr xs) = True"
| "truthy (JObj kvs) = True"

text \<open>The operator \<^verbatim>\<open>a || b\<close>.\<close>

definition js_or :: "jsval \<Rightarrow> jsval \<Rightarrow> jsval" where
  "js_or a b = (if truthy a then a else b)"

text \<open>
  Reading a property \<^verbatim>\<open>v.k\<close> of a value that is neither null nor undefined. The
  only names read by the program are the nine report fields, none of which exists on a
  prototype, so a primitive or an array yields undefined.
\<close>

fun get_prop :: "jsval \<Rightarrow> string \<Rightarrow> jsval" where
  "get_prop (JObj kvs) k = (case map_of kvs k of None \<Rightarrow> Undefined | Some v \<Rightarrow> v)"
| "get_prop v k = Undefined"

text \<open>Digits and \<^verbatim>\<open>Number.prototype.toString(radix)\<close> on a natural number.\<close>

definition digit :: "nat \<Rightarrow> char" where
  "digit d = ''0123456789abcdef'' ! d"

function toString_radix :: "nat \<Rightarrow> nat \<Rightarrow> string" where
  "toString_radix r n =
     (if n < r \<or> r < 2 then [digit n]
      else toString_radix r (n div r) @ [digit (n mod r)])"
  by pat_completeness auto
termination
  by (relation "measure snd") auto

declare toString_radix.simps [simp del]

definition padStart :: "nat \<Rightarrow> char \<Rightarrow> string \<Rightarrow> string" where
  "padStart n c s = replicate (n - length s) c @ s"

definition startsWith :: "string \<Rightarrow> string \<Rightarrow> bool" where
  "startsWith s p = (take (length p) s = p)"

text \<open>\<^verbatim>\<open>s.slice(-k)\<close>: the last \<open>k\<close> characters, the whole string when it is shorter.\<close>

definition slice_last :: "nat \<Rightarrow> string \<Rightarrow> string" where
  "slice_last k s = drop (length s - k) s"

text \<open>\<^verbatim>\<open>s.split(c)\<close> for a one-character separator.\<close>

fun split :: "char \<Rightarrow> string \<Rightarrow> string list" where
  "split c [] = [[]]"
| "split c (x # xs) =
     (if x = c then [] # split c xs
      else (case split c xs of [] \<Rightarrow> [[x]] | y # ys \<Rightarrow> (x # y) # ys))"

text \<open>
  The own enumerable properties that an object spread \<^verbatim>\<open>{...v}\<close> copies: the
  entries of an object, the indexed elements of an array or of a string, nothing for any
  other value.
\<close>

fun own_props :: "jsval \<Rightarrow> (string \<times> jsval) list" where
  "own_props (JObj kvs) = kvs"
| "own_props (JArr xs) = zip (map (toString_radix 10) [0..<length xs]) xs"
| "own_props (JStr s) = zip (map (toString_radix 10) [0..<length s]) (map (\<lambda>c. JStr [c]) s)"
| "own_props v = []"

text \<open>
  A thrown value: an \<^verbatim>\<open>Error\<close> object (name and message) or any other value,
  kept as the string it converts to. \<open>to_string\<close> is what the template literal
  \<^verbatim>\<open>`${error}`\<close> produces (\<^verbatim>\<open>Error.prototype.toString\<close>).
\<close>

datatype thrown = JsError string string | Reason string

fun to_string :: "thrown \<Rightarrow> string" where
  "to_string (JsError nm msg) =
     (if msg = [] then nm else if nm = [] then msg else nm @ '': '' @ msg)"
| "to_string (Reason s) = s"

text \<open>How an awaited promise ends: it never settles, it rejects, or it resolves.\<close>

datatype 'a promise = Pending | Rejected thrown | Resolved 'a

section \<open>types.ts\<close>

datatype MediaType = IMAGE | VIDEO | AUDIO | UNKNOWN

record ForensicReport =
  report_id :: string
  fileName :: string
  fileType :: MediaType
  timestamp :: string
  fileHash :: string
  authenticityScore :: jsval
  isManipulated :: jsval
  manipulationType :: jsval
  ensembleData :: jsval
  semanticMismatchDetected :: jsval
  semanticAnalysisText :: jsval
  reasoning :: jsval
  suspiciousRegions :: jsval
  metadata :: "(string \<times> jsval) list"

record AnalysisState =
  isAnalyzing :: bool
  progress :: nat
  currentStep :: string
  logs :: "string list"

datatype ModuleTab = DASHBOARD | VISUAL_LAB | SEMANTIC | METADATA | PROVENANCE

section \<open>The platform\<close>

text \<open>The browser's \<^verbatim>\<open>File\<close>: its name, declared MIME type and size in bytes.\<close>

record File =
  file_name :: string
  file_type :: string
  file_size :: nat

record InlineData =
  data :: "string option"
  mimeType :: string

text \<open>
  The request sent to the remote model. The prompt text and the response schema are
  constants of the source; the system prompt interpolates the media type and the
  context narrative.
\<close>

record GenerateRequest =
  req_model :: string
  req_filePart :: InlineData
  req_mediaType :: MediaType
  req_contextNarrative :: string

text \<open>
  Everything the program obtains from outside is a field of the environment:
  \<^item> \<open>API_KEY\<close>: \<^verbatim>\<open>process.env.API_KEY\<close>;
  \<^item> \<open>subtle_digest\<close>: \<^verbatim>\<open>file.arrayBuffer()\<close> followed by
    \<^verbatim>\<open>crypto.subtle.digest('SHA-256', buffer)\<close>, the bytes of the hash;
  \<^item> \<open>readAsDataURL\<close>: \<^verbatim>\<open>reader.result\<close> when \<^verbatim>\<open>onloadend\<close>
    fires, null after a read error;
  \<^item> \<open>generateContent\<close>: the remote call, resolving with \<^verbatim>\<open>response.text\<close>;
  \<^item> \<open>JSON_parse\<close>: \<^verbatim>\<open>JSON.parse\<close>, which throws a SyntaxError or returns a value;
  \<^item> \<open>null_read_message\<close>: the engine's TypeError message for reading a property of
    null or undefined;
  \<^item> \<open>Date_now\<close>, \<open>toISOString\<close>: the clock when the report is built;
  \<^item> \<open>toLocaleTimeString\<close>: the clock at the i-th \<open>addLog\<close> call of a run.
\<close>

record Env =
  API_KEY :: "string option"
  subtle_digest :: "File \<Rightarrow> 8 word list promise"
  readAsDataURL :: "File \<Rightarrow> string option"
  generateContent :: "GenerateRequest \<Rightarrow> string option promise"
  JSON_parse :: "string \<Rightarrow> thrown + jsval"
  null_read_message :: "string \<Rightarrow> string"
  Date_now :: nat
  toISOString :: string
  toLocaleTimeString :: "nat \<Rightarrow> string"

section \<open>services/geminiService\<close>

text \<open>\<^verbatim>\<open>const GEMINI_API_KEY = process.env.API_KEY || ''\<close>\<close>

definition GEMINI_API_KEY :: "Env \<Rightarrow> string" where
  "GEMINI_API_KEY env = (case API_KEY env of None \<Rightarrow> [] | Some k \<Rightarrow> k)"

text \<open>
  \<open>fileToGenerativePart\<close>: the promise resolves inside \<^verbatim>\<open>onloadend\<close>. When the
  read failed, \<^verbatim>\<open>reader.result\<close> is null, \<^verbatim>\<open>.split\<close> throws inside the
  callback and \<^verbatim>\<open>resolve\<close> is never called.
\<close>

definition fileToGenerativePart :: "Env \<Rightarrow> File \<Rightarrow> InlineData promise" where
  "fileToGenerativePart env file =
     (case readAsDataURL env file of
        None \<Rightarrow> Pending
      | Some result \<Rightarrow>
          (let pieces = split CHR '','' result;
               base64Data = (if 1 < length pieces then Some (pieces ! 1) else None)
           in Resolved \<lparr>data = base64Data, mimeType = file_type file\<rparr>))"

definition calculateFileHash :: "Env \<Rightarrow> File \<Rightarrow> string promise" where
  "calculateFileHash env file =
     (case subtle_digest env file of
        Pending \<Rightarrow> Pending
      | Rejected e \<Rightarrow> Rejected e
      | Resolved hashArray \<Rightarrow>
          Resolved (concat (map (\<lambda>b. padStart 2 CHR ''0'' (toString_radix 16 (unat b))) hashArray)))"

text \<open>\<^verbatim>\<open>response.text || '{}'\<close>\<close>

definition response_text_or_empty :: "string option \<Rightarrow> string" where
  "response_text_or_empty t = (case t of None \<Rightarrow> ''{}'' | Some s \<Rightarrow> (if s = [] then ''{}'' else s))"

text \<open>
  What \<open>analyzeMedia\<close> does to the outside, in order: reading the file through the
  FileReader, and calling the remote model.
\<close>

datatype effect = ReadFile File | CallRemote GenerateRequest

text \<open>
  \<open>analyzeMedia\<close> up to and including \<^verbatim>\<open>JSON.parse\<close>: the effects performed and
  the value of the variable \<^verbatim>\<open>jsonResponse\<close>, the raw classification payload.
\<close>

definition jsonResponse ::
  "Env \<Rightarrow> File \<Rightarrow> MediaType \<Rightarrow> string \<Rightarrow> effect list \<times> jsval promise" where
  "jsonResponse env file mediaType contextNarrative =
     (if GEMINI_API_KEY env = []
      then ([], Rejected (JsError ''Error'' ''API Key is missing.''))
      else
        (case fileToGenerativePart env file of
           Pending \<Rightarrow> ([ReadFile file], Pending)
         | Rejected e \<Rightarrow> ([ReadFile file], Rejected e)
         | Resolved part \<Rightarrow>
             (let request = \<lparr>req_model = ''gemini-2.5-flash'', req_filePart = part,
                             req_mediaType = mediaType, req_contextNarrative = contextNarrative\<rparr>
              in (case generateContent env request of
                    Pending \<Rightarrow> ([ReadFile file, CallRemote request], Pending)
                  | Rejected e \<Rightarrow> ([ReadFile file, CallRemote request], Rejected e)
                  | Resolved response_text \<Rightarrow>
                      ([ReadFile file, CallRemote request],
                       (case JSON_parse env (response_text_or_empty response_text) of
                          Inl e \<Rightarrow> Rejected e
                        | Inr v \<Rightarrow> Resolved v))))))"

text \<open>
  The object literal returned by \<open>analyzeMedia\<close>. Reading its first property throws a
  TypeError when the parsed value is null.
\<close>

definition analysisResult :: "Env \<Rightarrow> jsval \<Rightarrow> thrown + jsval" where
  "analysisResult env payload =
     (if payload = Null \<or> payload = Undefined
      then Inl (JsError ''TypeError'' (null_read_message env ''authenticityScore''))
      else Inr (JObj
        [(''authenticityScore'', get_prop payload ''authenticityScore''),
         (''isManipulated'', get_prop payload ''isManipulated''),
         (''manipulationType'', js_or (get_prop payload ''manipulationType'') (JArr [])),
         (''ensembleData'', js_or (get_prop payload ''ensembleData'') (JArr [])),
         (''semanticMismatchDetected'', get_prop payload ''semanticMismatchDetected''),
         (''semanticAnalysisText'', get_prop payload ''semanticAnalysisText''),
         (''reasoning'', get_prop payload ''reasoning''),
         (''suspiciousRegions'', js_or (get_prop payload ''suspiciousRegions'') (JArr [])),
         (''metadata'', js_or (get_prop payload ''metadata'') (JObj []))]))"

definition analyzeMedia ::
  "Env \<Rightarrow> File \<Rightarrow> MediaType \<Rightarrow> string \<Rightarrow> effect list \<times> jsval promise" where
  "analyzeMedia env file mediaType contextNarrative =
     (case jsonResponse env file mediaType contextNarrative of
        (effects, Pending) \<Rightarrow> (effects, Pending)
      | (effects, Rejected e) \<Rightarrow> (effects, Rejected e)
      | (effects, Resolved payload) \<Rightarrow>
          (effects, (case analysisResult env payload of
                       Inl e \<Rightarrow> Rejected e
                     | Inr result \<Rightarrow> Resolved result)))"

section \<open>App.tsx: the analysis dashboard\<close>

text \<open>The component state that \<open>runAnalysis\<close> reads and writes.\<close>

record App =
  file' :: "File option"
  contextText :: string
  analysisState :: AnalysisState
  report :: "ForensicReport option"
  activeTab :: ModuleTab

text \<open>
  Every state setter of the component is a function from the current state to the next
  one, and a run of \<open>runAnalysis\<close> is the list of the setter calls it makes, in
  program order. React applies them in that order.
\<close>

type_synonym update = "App \<Rightarrow> App"

definition setAnalysisState :: "(AnalysisState \<Rightarrow> AnalysisState) \<Rightarrow> update" where
  "setAnalysisState g s = s\<lparr>analysisState := g (analysisState s)\<rparr>"

definition setReport :: "ForensicReport option \<Rightarrow> update" where
  "setReport r s = s\<lparr>report := r\<rparr>"

definition setActiveTab :: "ModuleTab \<Rightarrow> update" where
  "setActiveTab t s = s\<lparr>activeTab := t\<rparr>"

definition addLog :: "string \<Rightarrow> string \<Rightarrow> update" where
  "addLog time msg =
     setAnalysisState (\<lambda>prev. prev\<lparr>logs := logs prev @ [''['' @ time @ ''] '' @ msg]\<rparr>)"

text \<open>The states after each update of a list, and the state after all of them.\<close>

fun snapshots :: "App \<Rightarrow> update list \<Rightarrow> App list" where
  "snapshots s [] = []"
| "snapshots s (u # us) = u s # snapshots (u s) us"

fun final_state :: "App \<Rightarrow> update list \<Rightarrow> App" where
  "final_state s [] = s"
| "final_state s (u # us) = final_state (u s) us"

text \<open>
  \<^verbatim>\<open>(file.size/1024/1024).toFixed(2)\<close>. The size is an integer number of bytes and
  dividing a double by 1024 is exact, so \<^verbatim>\<open>toFixed\<close> rounds the exact quotient
  to the nearest hundredth, upwards on a tie.
\<close>

definition sizeMB :: "File \<Rightarrow> string" where
  "sizeMB f =
     (let n = (file_size f * 100 + 524288) div 1048576
      in toString_radix 10 (n div 100) @ ''.'' @ padStart 2 CHR ''0'' (toString_radix 10 (n mod 100)))"

definition mediaTypeOf :: "File \<Rightarrow> MediaType" where
  "mediaTypeOf f =
     (if startsWith (file_type f) ''image'' then IMAGE
      else if startsWith (file_type f) ''video'' then VIDEO
      else if startsWith (file_type f) ''audio'' then AUDIO
      else UNKNOWN)"

text \<open>The last \<open>k\<close> decimal digits of a number, leading zeros included.\<close>

fun last_digits :: "nat \<Rightarrow> nat \<Rightarrow> string" where
  "last_digits 0 n = []"
| "last_digits (Suc k) n = last_digits k (n div 10) @ [digit (n mod 10)]"

text \<open>\<^verbatim>\<open>`CASE-${Date.now().toString().slice(-6)}`\<close>\<close>

definition case_id :: "nat \<Rightarrow> string" where
  "case_id now = ''CASE-'' @ slice_last 6 (toString_radix 10 now)"

text \<open>Step 4 of \<open>runAnalysis\<close>: the report object.\<close>

definition fullReport :: "Env \<Rightarrow> File \<Rightarrow> MediaType \<Rightarrow> string \<Rightarrow> jsval \<Rightarrow> ForensicReport" where
  "fullReport env f type hash aiResult =
     \<lparr>report_id = case_id (Date_now env),
      fileName = file_name f,
      fileType = type,
      timestamp = toISOString env,
      fileHash = hash,
      authenticityScore = js_or (get_prop aiResult ''authenticityScore'') (JNum (Num 0)),
      isManipulated = js_or (get_prop aiResult ''isManipulated'') (JBool False),
      manipulationType = get_prop aiResult ''manipulationType'',
      ensembleData = js_or (get_prop aiResult ''ensembleData'') (JArr []),
      semanticMismatchDetected = js_or (get_prop aiResult ''semanticMismatchDetected'') (JBool False),
      semanticAnalysisText = js_or (get_prop aiResult ''semanticAnalysisText'') (JStr []),
      reasoning = js_or (get_prop aiResult ''reasoning'') (JStr ''Analysis failed.''),
      suspiciousRegions = js_or (get_prop aiResult ''suspiciousRegions'') (JArr []),
      metadata =
        AList.update ''mimeType'' (JStr (file_type f))
          (AList.update ''originalSize'' (JStr (sizeMB f @ '' MB''))
             (own_props (get_prop aiResult ''metadata'')))\<rparr>"

text \<open>The \<^verbatim>\<open>catch\<close> block.\<close>

definition catch_block :: "string \<Rightarrow> thrown \<Rightarrow> update list" where
  "catch_block time error =
     [addLog time (''CRITICAL ERROR: '' @ to_string error),
      setAnalysisState (\<lambda>prev. prev\<lparr>isAnalyzing := False\<rparr>)]"

text \<open>The statements between the hash and the call of \<open>analyzeMedia\<close>.\<close>

definition load_models :: "Env \<Rightarrow> string \<Rightarrow> update list" where
  "load_models env hash =
     (let now = toLocaleTimeString env
      in [setAnalysisState (\<lambda>prev. prev\<lparr>progress := 20, currentStep := ''HASHING''\<rparr>),
          addLog (now 1) (''SHA-256: '' @ take 16 hash @ ''...''),
          addLog (now 2) ''Loading FaceForensics++ (Xception) weights...'',
          setAnalysisState (\<lambda>prev. prev\<lparr>progress := 40, currentStep := ''LOADING_MODELS''\<rparr>),
          addLog (now 3) ''Initializing DeepFake-o-Matic ensemble...'',
          setAnalysisState (\<lambda>prev. prev\<lparr>progress := 50, currentStep := ''LOADING_MODELS''\<rparr>),
          addLog (now 4) ''Sending tensors to analysis engine...''])"

text \<open>The statements after \<open>analyzeMedia\<close> has resolved.\<close>

definition publish :: "Env \<Rightarrow> File \<Rightarrow> MediaType \<Rightarrow> string \<Rightarrow> jsval \<Rightarrow> update list" where
  "publish env f type hash aiResult =
     (let now = toLocaleTimeString env
      in [setAnalysisState (\<lambda>prev. prev\<lparr>progress := 90, currentStep := ''INFERENCE''\<rparr>),
          addLog (now 5) ''Inference complete. Aggregating results...'',
          setReport (Some (fullReport env f type hash aiResult)),
          setAnalysisState
            (\<lambda>prev. prev\<lparr>progress := 100, currentStep := ''COMPLETE'', isAnalyzing := False\<rparr>),
          addLog (now 6) ''Report generated successfully.'',
          setActiveTab DASHBOARD])"

text \<open>
  \<open>runAnalysis\<close>, called on the component state \<open>app\<close> whose \<^verbatim>\<open>file\<close> and
  \<^verbatim>\<open>contextText\<close> it closes over. An awaited promise that never settles ends the
  list of updates where the function is suspended.
\<close>

definition runAnalysis :: "Env \<Rightarrow> App \<Rightarrow> update list" where
  "runAnalysis env app =
     (case file' app of
        None \<Rightarrow> []
      | Some f \<Rightarrow>
          [setAnalysisState
             (\<lambda>prev. \<lparr>isAnalyzing = True, progress = 0, currentStep = ''INIT'',
                      logs = [''Initializing core modules...'']\<rparr>),
           addLog (toLocaleTimeString env 0)
             (''Hashing '' @ file_name f @ '' ('' @ sizeMB f @ ''MB)...'')] @
          (case calculateFileHash env f of
             Pending \<Rightarrow> []
           | Rejected error \<Rightarrow> catch_block (toLocaleTimeString env 1) error
           | Resolved hash \<Rightarrow>
               load_models env hash @
               (let type = mediaTypeOf f
                in (case snd (analyzeMedia env f type (contextText app)) of
                      Pending \<Rightarrow> []
                    | Rejected error \<Rightarrow> catch_block (toLocaleTimeString env 5) error
                    | Resolved aiResult \<Rightarrow> publish env f type hash aiResult))))"

text \<open>
  The only control that calls \<open>runAnalysis\<close> is the button of the pre-analysis panel,
  rendered under \<^verbatim>\<open>file && !report && !analysisState.isAnalyzing\<close>.
\<close>

definition scan_button_rendered :: "App \<Rightarrow> bool" where
  "scan_button_rendered app =
     (file' app \<noteq> None \<and> report app = None \<and> \<not> isAnalyzing (analysisState app))"

definition click_scan_button :: "Env \<Rightarrow> App \<Rightarrow> update list" where
  "click_scan_button env app = (if scan_button_rendered app then runAnalysis env app else [])"

text \<open>
  The same run with its suspensions. \<open>None\<close> stands for an \<^verbatim>\<open>await\<close> at which
  \<open>runAnalysis\<close> gives control back to the event loop: the digest of the file, the two
  timers of 600 ms, and the classification call. React 18 applies the setter calls made
  between two suspensions together and renders once, so a state is rendered, and can be
  observed, only where the function is suspended or has ended.
\<close>

definition load_models_awaits :: "Env \<Rightarrow> string \<Rightarrow> update option list" where
  "load_models_awaits env hash =
     (let now = toLocaleTimeString env
      in [Some (setAnalysisState (\<lambda>prev. prev\<lparr>progress := 20, currentStep := ''HASHING''\<rparr>)),
          Some (addLog (now 1) (''SHA-256: '' @ take 16 hash @ ''...'')),
          None,
          Some (addLog (now 2) ''Loading FaceForensics++ (Xception) weights...''),
          Some (setAnalysisState (\<lambda>prev. prev\<lparr>progress := 40, currentStep := ''LOADING_MODELS''\<rparr>)),
          None,
          Some (addLog (now 3) ''Initializing DeepFake-o-Matic ensemble...''),
          Some (setAnalysisState (\<lambda>prev. prev\<lparr>progress := 50, currentStep := ''LOADING_MODELS''\<rparr>)),
          Some (addLog (now 4) ''Sending tensors to analysis engine...'')])"

definition runAnalysis_awaits :: "Env \<Rightarrow> App \<Rightarrow> update option list" where
  "runAnalysis_awaits env app =
     (case file' app of
        None \<Rightarrow> []
      | Some f \<Rightarrow>
          [Some (setAnalysisState
             (\<lambda>prev. \<lparr>isAnalyzing = True, progress = 0, currentStep = ''INIT'',
                      logs = [''Initializing core modules...'']\<rparr>)),
           Some (addLog (toLocaleTimeString env 0)
             (''Hashing '' @ file_name f @ '' ('' @ sizeMB f @ ''MB)...'')),
           None] @
          (case calculateFileHash env f of
             Pending \<Rightarrow> []
           | Rejected error \<Rightarrow> map Some (catch_block (toLocaleTimeString env 1) error)
           | Resolved hash \<Rightarrow>
               load_models_awaits env hash @ [None] @
               (let type = mediaTypeOf f
                in (case snd (analyzeMedia env f type (contextText app)) of
                      Pending \<Rightarrow> []
                    | Rejected error \<Rightarrow> map Some (catch_block (toLocaleTimeString env 5) error)
                    | Resolved aiResult \<Rightarrow> map Some (publish env f type hash aiResult)))))"

text \<open>The setter calls of such a run, suspensions left out.\<close>

fun setter_calls :: "update option list \<Rightarrow> update list" where
  "setter_calls [] = []"
| "setter_calls (None # xs) = setter_calls xs"
| "setter_calls (Some u # xs) = u # setter_calls xs"

text \<open>
  The states that are rendered: the current state at each suspension and at the end of
  the run, provided a setter was called since the last render.
\<close>

fun rendered :: "bool \<Rightarrow> App \<Rightarrow> update option list \<Rightarrow> App list" where
  "rendered dirty s [] = (if dirty then [s] else [])"
| "rendered dirty s (None # xs) = (if dirty then [s] else []) @ rendered False s xs"
| "rendered dirty s (Some u # xs) = rendered True (u s) xs"

section \<open>Example runs\<close>

text \<open>
  The file of the specification's Scenario A, a platform around it whose API key, remote
  response and JSON parser are given, and the component state right after that file was
  selected.
\<close>

definition sample_file :: File where
  "sample_file = \<lparr>file_name = ''sample.png'', file_type = ''image/png'', file_size = 2097152\<rparr>"

definition sample_digest :: "8 word list" where
  "sample_digest =
     [0xab, 0xc1, 0x23, 0xab, 0xc1, 0x23, 0xab, 0xc1, 0x23, 0xab, 0xc1, 0x23, 0xab, 0xc1, 0x23, 0xab,
      0xc1, 0x23, 0xab, 0xc1, 0x23, 0xab, 0xc1, 0x23, 0xab, 0xc1, 0x23, 0xab, 0xc1, 0x23, 0xab, 0xc1]"

definition sample_env ::
  "string option \<Rightarrow> string option promise \<Rightarrow> (string \<Rightarrow> thrown + jsval) \<Rightarrow> Env" where
  "sample_env key response parse =
     \<lparr>API_KEY = key,
      subtle_digest = (\<lambda>f. Resolved sample_digest),
      readAsDataURL = (\<lambda>f. Some ''data:image/png;base64,iVBORw0KGgo=''),
      generateContent = (\<lambda>request. response),
      JSON_parse = parse,
      null_read_message = (\<lambda>k. ''Cannot read properties of null (reading '' @ k @ '')''),
      Date_now = 1700000123456,
      toISOString = ''2023-11-14T22:15:23.456Z'',
      toLocaleTimeString = (\<lambda>i. ''10:15:23 PM'')\<rparr>"

text \<open>A parser that is only asked about one text, for which it returns the given value.\<close>

definition parses_to :: "string \<Rightarrow> jsval \<Rightarrow> string \<Rightarrow> thrown + jsval" where
  "parses_to expected v s =
     (if s = expected then Inr v else Inl (JsError ''SyntaxError'' ''Unexpected token''))"

definition sample_app :: App where
  "sample_app =
     \<lparr>file' = Some sample_file, contextText = [],
      analysisState = \<lparr>isAnalyzing = False, progress = 0, currentStep = ''IDLE'', logs = []\<rparr>,
      report = None, activeTab = DASHBOARD\<rparr>"

text \<open>The same component in the middle of a run.\<close>

definition running_app :: App where
  "running_app =
     sample_app\<lparr>analysisState :=
       \<lparr>isAnalyzing = True, progress = 50, currentStep = ''LOADING_MODELS'',
        logs = [''Initializing core modules...'',
                ''[10:15:23 PM] Hashing sample.png (2.00MB)...'',
                ''[10:15:24 PM] SHA-256: abc123abc123abc1...'']\<rparr>\<rparr>"

text \<open>A report left by an earlier run.\<close>

definition earlier_report :: ForensicReport where
  "earlier_report =
     \<lparr>report_id = ''CASE-000001'', fileName = ''earlier.png'', fileType = IMAGE,
      timestamp = ''2023-11-14T21:00:00.000Z'', fileHash = ''00'',
      authenticityScore = JNum (Num 92), isManipulated = JBool False,
      manipulationType = JArr [], ensembleData = JArr [],
      semanticMismatchDetected = JBool False, semanticAnalysisText = JStr [],
      reasoning = JStr ''no anomalies'', suspiciousRegions = JArr [],
      metadata = [(''originalSize'', JStr ''1.00 MB''), (''mimeType'', JStr ''image/png'')]\<rparr>"

text \<open>
  Scenario A of the specification: the remote model answers with a score of 92, one
  ensemble entry and a reasoning, and nothing else.
\<close>

definition scenarioA_text :: string where
  \<open>scenarioA_text =
     ''{"authenticityScore":92,"isManipulated":false,"ensembleData":[{"modelName":"X","score":10,"confidence":"LOW","focusArea":"noise"}],"reasoning":"no anomalies"}''\<close>

definition scenarioA_payload :: jsval where
  "scenarioA_payload =
     JObj [(''authenticityScore'', JNum (Num 92)),
           (''isManipulated'', JBool False),
           (''ensembleData'',
              JArr [JObj [(''modelName'', JStr ''X''), (''score'', JNum (Num 10)),
                          (''confidence'', JStr ''LOW''), (''focusArea'', JStr ''noise'')]]),
           (''reasoning'', JStr ''no anomalies'')]"

definition scenarioA_env :: Env where
  "scenarioA_env =
     sample_env (Some ''key'') (Resolved (Some scenarioA_text))
       (parses_to scenarioA_text scenarioA_payload)"

text \<open>Scenario B: the remote call rejects with "network timeout".\<close>

definition scenarioB_env :: Env where
  "scenarioB_env =
     sample_env (Some ''key'') (Rejected (Reason ''network timeout''))
       (parses_to ''{}'' (JObj []))"

text \<open>Scenario C: the remote model answers with the empty object.\<close>

definition scenarioC_env :: Env where
  "scenarioC_env = sample_env (Some ''key'') (Resolved (Some ''{}'')) (parses_to ''{}'' (JObj []))"

text \<open>An answer whose metadata carries its own \<open>originalSize\<close> and \<open>mimeType\<close>.\<close>

definition override_text :: string where
  \<open>override_text =
     ''{"metadata":{"originalSize":"1 GB","estimatedDevice":"Pixel 7","mimeType":"text/html"}}''\<close>

definition override_payload :: jsval where
  "override_payload =
     JObj [(''metadata'',
              JObj [(''originalSize'', JStr ''1 GB''), (''estimatedDevice'', JStr ''Pixel 7''),
                    (''mimeType'', JStr ''text/html'')])]"

definition override_env :: Env where
  "override_env =
     sample_env (Some ''key'') (Resolved (Some override_text))
       (parses_to override_text override_payload)"

text \<open>An answer whose score and region coordinates lie outside 0..100.\<close>

definition out_of_range_text :: string where
  \<open>out_of_range_text =
     ''{"authenticityScore":150,"suspiciousRegions":[{"x":-5,"y":120,"width":250,"height":10,"label":"jaw","confidence":101}]}''\<close>

definition out_of_range_regions :: "jsval list" where
  "out_of_range_regions =
     [JObj [(''x'', JNum (Num (- 5))), (''y'', JNum (Num 120)), (''width'', JNum (Num 250)),
            (''height'', JNum (Num 10)), (''label'', JStr ''jaw''), (''confidence'', JNum (Num 101))]]"

definition out_of_range_payload :: jsval where
  "out_of_range_payload =
     JObj [(''authenticityScore'', JNum (Num 150)),
           (''suspiciousRegions'', JArr out_of_range_regions)]"

definition out_of_range_env :: Env where
  "out_of_range_env =
     sample_env (Some ''key'') (Resolved (Some out_of_range_text))
       (parses_to out_of_range_text out_of_range_payload)"

text \<open>An answer that is not JSON, which the parser refuses.\<close>

definition unparseable_env :: Env where
  "unparseable_env =
     sample_env (Some ''key'') (Resolved (Some ''<html>502 Bad Gateway</html>''))
       (\<lambda>s. Inl (JsError ''SyntaxError'' ''Unexpected token < in JSON at position 0''))"

text \<open>A platform without an API key.\<close>

definition keyless_env :: Env where
  "keyless_env = sample_env None (Resolved (Some ''{}'')) (parses_to ''{}'' (JObj []))"

text \<open>A platform whose remote model answers with the JSON text \<^verbatim>\<open>null\<close>.\<close>

definition null_env :: Env where
  "null_env = sample_env (Some ''key'') (Resolved (Some ''null'')) (parses_to ''null'' Null)"

text \<open>A platform without an API key on which the selected file can no longer be read.\<close>

definition keyless_unreadable_env :: Env where
  "keyless_unreadable_env =
     keyless_env\<lparr>subtle_digest :=
       (\<lambda>f. Rejected (JsError ''NotReadableError'' ''The requested file could not be read''))\<rparr>"

section \<open>Facts about runs\<close>

lemmas update_defs = setAnalysisState_def setReport_def setActiveTab_def addLog_def

lemmas run_defs = runAnalysis_def catch_block_def load_models_def publish_def Let_def

lemma snapshots_eq_Nil [simp]: "(snapshots s us = []) = (us = [])"
  by (cases us) simp_all

lemma final_state_last: "us \<noteq> [] \<Longrightarrow> final_state s us = last (snapshots s us)"
proof (induction us arbitrary: s)
  case Nil
  then show ?case by simp
next
  case (Cons u us)
  then show ?case by (cases "us = []") simp_all
qed

lemma runAnalysis_no_file: "file' app = None \<Longrightarrow> runAnalysis env app = []"
  by (simp add: runAnalysis_def)

lemma runAnalysis_first_update:
  assumes "file' app = Some f"
  shows "hd (snapshots app (runAnalysis env app)) =
     app\<lparr>analysisState := \<lparr>isAnalyzing = True, progress = 0, currentStep = ''INIT'',
       logs = [''Initializing core modules...'']\<rparr>\<rparr>"
  using assms by (simp add: runAnalysis_def update_defs)

lemma run_hash_rejected:
  assumes "file' app = Some f" and "calculateFileHash env f = Rejected e"
  shows "final_state app (runAnalysis env app) =
      app\<lparr>analysisState := \<lparr>isAnalyzing = False, progress = 0, currentStep = ''INIT'',
         logs = [''Initializing core modules...'',
                 ''['' @ toLocaleTimeString env 0 @ ''] '' @ ''Hashing '' @ file_name f @ '' ('' @ sizeMB f @ ''MB)...'',
                 ''['' @ toLocaleTimeString env 1 @ ''] '' @ ''CRITICAL ERROR: '' @ to_string e]\<rparr>\<rparr>"
  using assms by (simp add: run_defs update_defs)

lemma run_inference_rejected:
  assumes "file' app = Some f" and "calculateFileHash env f = Resolved h"
    and "snd (analyzeMedia env f (mediaTypeOf f) (contextText app)) = Rejected e"
  shows "final_state app (runAnalysis env app) =
      app\<lparr>analysisState := \<lparr>isAnalyzing = False, progress = 50, currentStep = ''LOADING_MODELS'',
         logs = [''Initializing core modules...'',
                 ''['' @ toLocaleTimeString env 0 @ ''] '' @ ''Hashing '' @ file_name f @ '' ('' @ sizeMB f @ ''MB)...'',
                 ''['' @ toLocaleTimeString env 1 @ ''] '' @ ''SHA-256: '' @ take 16 h @ ''...'',
                 ''['' @ toLocaleTimeString env 2 @ ''] '' @ ''Loading FaceForensics++ (Xception) weights...'',
                 ''['' @ toLocaleTimeString env 3 @ ''] '' @ ''Initializing DeepFake-o-Matic ensemble...'',
                 ''['' @ toLocaleTimeString env 4 @ ''] '' @ ''Sending tensors to analysis engine...'',
                 ''['' @ toLocaleTimeString env 5 @ ''] '' @ ''CRITICAL ERROR: '' @ to_string e]\<rparr>\<rparr>"
  using assms by (simp add: run_defs update_defs)

text \<open>Unless both the hash and the classification resolve, no update touches the report.\<close>

lemma run_reports_unchanged:
  assumes "file' app = Some f"
    and "\<And>h r. calculateFileHash env f = Resolved h \<Longrightarrow>
             snd (analyzeMedia env f (mediaTypeOf f) (contextText app)) \<noteq> Resolved r"
  shows "report ` set (snapshots app (runAnalysis env app)) = {report app}"
proof (cases "calculateFileHash env f")
  case Pending
  then show ?thesis using assms(1) by (simp add: run_defs update_defs)
next
  case (Rejected e)
  then show ?thesis using assms(1) by (simp add: run_defs update_defs)
next
  case hash: (Resolved h)
  show ?thesis
  proof (cases "snd (analyzeMedia env f (mediaTypeOf f) (contextText app))")
    case Pending
    then show ?thesis using hash assms(1) by (simp add: run_defs update_defs)
  next
    case (Rejected e)
    then show ?thesis using hash assms(1) by (simp add: run_defs update_defs)
  next
    case (Resolved r)
    with assms(2) hash show ?thesis by blast
  qed
qed

lemma runAnalysis_not_Nil: "file' app = Some f \<Longrightarrow> runAnalysis env app \<noteq> []"
  by (simp add: runAnalysis_def)

lemma run_final_report_unchanged:
  assumes "file' app = Some f"
    and "\<And>h r. calculateFileHash env f = Resolved h \<Longrightarrow>
             snd (analyzeMedia env f (mediaTypeOf f) (contextText app)) \<noteq> Resolved r"
  shows "report (final_state app (runAnalysis env app)) = report app"
proof -
  have "runAnalysis env app \<noteq> []"
    using assms(1) by (rule runAnalysis_not_Nil)
  then have "final_state app (runAnalysis env app) \<in> set (snapshots app (runAnalysis env app))"
    by (simp add: final_state_last)
  then have "report (final_state app (runAnalysis env app))
      \<in> report ` set (snapshots app (runAnalysis env app))"
    by (rule imageI)
  then show ?thesis
    using run_reports_unchanged [OF assms] by simp
qed

lemma run_success_trace:
  assumes "file' app = Some f" and "calculateFileHash env f = Resolved h"
    and "snd (analyzeMedia env f (mediaTypeOf f) (contextText app)) = Resolved r"
  shows "map (\<lambda>s. (isAnalyzing (analysisState s), progress (analysisState s)))
           (snapshots app (runAnalysis env app)) =
     [(True, 0), (True, 0), (True, 20), (True, 20), (True, 20), (True, 40), (True, 40),
      (True, 50), (True, 50), (True, 90), (True, 90), (True, 90),
      (False, 100), (False, 100), (False, 100)]"
  using assms by (simp add: run_defs update_defs)

lemma run_success_report:
  assumes "file' app = Some f" and "calculateFileHash env f = Resolved h"
    and "snd (analyzeMedia env f (mediaTypeOf f) (contextText app)) = Resolved r"
  shows "report (final_state app (runAnalysis env app)) =
           Some (fullReport env f (mediaTypeOf f) h r)"
  using assms by (simp add: run_defs update_defs)

section \<open>Facts about the classification call\<close>

lemma empty_key: "(GEMINI_API_KEY env = []) = (API_KEY env = None \<or> API_KEY env = Some [])"
  by (simp add: GEMINI_API_KEY_def split: option.splits)

lemma analyzeMedia_no_key:
  "GEMINI_API_KEY env = [] \<Longrightarrow>
     analyzeMedia env f m c = ([], Rejected (JsError ''Error'' ''API Key is missing.''))"
  by (simp add: analyzeMedia_def jsonResponse_def)

lemma analyzeMedia_of_payload:
  assumes "snd (jsonResponse env f m c) = Resolved payload"
  shows "snd (analyzeMedia env f m c) =
     (case analysisResult env payload of Inl e \<Rightarrow> Rejected e | Inr r \<Rightarrow> Resolved r)"
  using assms by (cases "jsonResponse env f m c") (simp add: analyzeMedia_def)

lemma analyzeMedia_rejected:
  assumes "snd (jsonResponse env f m c) = Rejected e"
  shows "snd (analyzeMedia env f m c) = Rejected e"
  using assms by (cases "jsonResponse env f m c") (simp add: analyzeMedia_def)

lemma jsonResponse_of_text:
  assumes "GEMINI_API_KEY env \<noteq> []" and "fileToGenerativePart env f = Resolved part"
    and "generateContent env \<lparr>req_model = ''gemini-2.5-flash'', req_filePart = part,
           req_mediaType = m, req_contextNarrative = c\<rparr> = Resolved t"
  shows "snd (jsonResponse env f m c) =
     (case JSON_parse env (response_text_or_empty t) of Inl e \<Rightarrow> Rejected e | Inr v \<Rightarrow> Resolved v)"
  using assms by (simp add: jsonResponse_def Let_def)

lemma js_or_idem: "js_or (js_or v d) d = js_or v d"
  by (simp add: js_or_def)

lemma published_report:
  assumes "file' app = Some f" and "calculateFileHash env f = Resolved h"
    and "snd (jsonResponse env f (mediaTypeOf f) (contextText app)) = Resolved payload"
    and "payload \<noteq> Null" and "payload \<noteq> Undefined"
  shows "report (final_state app (runAnalysis env app)) = Some
     \<lparr>report_id = case_id (Date_now env),
      fileName = file_name f,
      fileType = mediaTypeOf f,
      timestamp = toISOString env,
      fileHash = h,
      authenticityScore = js_or (get_prop payload ''authenticityScore'') (JNum (Num 0)),
      isManipulated = js_or (get_prop payload ''isManipulated'') (JBool False),
      manipulationType = js_or (get_prop payload ''manipulationType'') (JArr []),
      ensembleData = js_or (get_prop payload ''ensembleData'') (JArr []),
      semanticMismatchDetected = js_or (get_prop payload ''semanticMismatchDetected'') (JBool False),
      semanticAnalysisText = js_or (get_prop payload ''semanticAnalysisText'') (JStr []),
      reasoning = js_or (get_prop payload ''reasoning'') (JStr ''Analysis failed.''),
      suspiciousRegions = js_or (get_prop payload ''suspiciousRegions'') (JArr []),
      metadata =
        AList.update ''mimeType'' (JStr (file_type f))
          (AList.update ''originalSize'' (JStr (sizeMB f @ '' MB''))
             (own_props (js_or (get_prop payload ''metadata'') (JObj []))))\<rparr>"
proof -
  let ?r = "JObj
        [(''authenticityScore'', get_prop payload ''authenticityScore''),
         (''isManipulated'', get_prop payload ''isManipulated''),
         (''manipulationType'', js_or (get_prop payload ''manipulationType'') (JArr [])),
         (''ensembleData'', js_or (get_prop payload ''ensembleData'') (JArr [])),
         (''semanticMismatchDetected'', get_prop payload ''semanticMismatchDetected''),
         (''semanticAnalysisText'', get_prop payload ''semanticAnalysisText''),
         (''reasoning'', get_prop payload ''reasoning''),
         (''suspiciousRegions'', js_or (get_prop payload ''suspiciousRegions'') (JArr [])),
         (''metadata'', js_or (get_prop payload ''metadata'') (JObj []))]"
  have "analysisResult env payload = Inr ?r"
    using assms(4,5) by (simp add: analysisResult_def)
  then have "snd (analyzeMedia env f (mediaTypeOf f) (contextText app)) = Resolved ?r"
    using analyzeMedia_of_payload [OF assms(3)] by simp
  then have "report (final_state app (runAnalysis env app)) =
      Some (fullReport env f (mediaTypeOf f) h ?r)"
    using run_success_report [OF assms(1,2)] by blast
  then show ?thesis
    by (simp add: fullReport_def js_or_idem)
qed

section \<open>Facts about the example runs\<close>

lemma sample_hash:
  "calculateFileHash (sample_env k r p) sample_file =
     Resolved ''abc123abc123abc123abc123abc123abc123abc123abc123abc123abc123abc1''"
  by (simp add: calculateFileHash_def sample_env_def sample_digest_def padStart_def
      toString_radix.simps digit_def)

lemma sample_mediaType: "mediaTypeOf sample_file = IMAGE"
  by (simp add: mediaTypeOf_def sample_file_def startsWith_def)

lemma sample_sizeMB: "sizeMB sample_file = ''2.00''"
  by (simp add: sizeMB_def sample_file_def padStart_def toString_radix.simps digit_def)

lemma sample_case_id: "case_id (Date_now (sample_env k r p)) = ''CASE-123456''"
  by (simp add: case_id_def sample_env_def slice_last_def toString_radix.simps digit_def)

lemma sample_part:
  "fileToGenerativePart (sample_env k r p) sample_file =
     Resolved \<lparr>data = Some ''iVBORw0KGgo='', mimeType = ''image/png''\<rparr>"
  by (simp add: fileToGenerativePart_def sample_env_def sample_file_def)

lemma sample_key: "GEMINI_API_KEY (sample_env k r p) = (case k of None \<Rightarrow> [] | Some s \<Rightarrow> s)"
  by (simp add: GEMINI_API_KEY_def sample_env_def)

lemma sample_env_sel:
  "generateContent (sample_env k r p) rq = r" "JSON_parse (sample_env k r p) = p"
  "toLocaleTimeString (sample_env k r p) i = ''10:15:23 PM''"
  "toISOString (sample_env k r p) = ''2023-11-14T22:15:23.456Z''"
  "API_KEY (sample_env k r p) = k"
  by (simp_all add: sample_env_def)

lemma sample_jsonResponse:
  "snd (jsonResponse (sample_env (Some ''key'') (Resolved t) p) sample_file m c) =
     (case p (response_text_or_empty t) of Inl e \<Rightarrow> Rejected e | Inr v \<Rightarrow> Resolved v)"
  by (simp add: jsonResponse_def sample_part sample_key sample_env_sel Let_def)

lemma sample_jsonResponse_rejected:
  "snd (jsonResponse (sample_env (Some ''key'') (Rejected e) p) sample_file m c) = Rejected e"
  by (simp add: jsonResponse_def sample_part sample_key sample_env_sel Let_def)

lemma sample_app_sel:
  "file' sample_app = Some sample_file" "contextText sample_app = []"
  "report sample_app = None"
  "file' running_app = Some sample_file" "isAnalyzing (analysisState running_app)"
  "file' (sample_app\<lparr>report := r\<rparr>) = Some sample_file"
  "contextText (sample_app\<lparr>report := r\<rparr>) = []"
  by (simp_all add: sample_app_def running_app_def)

lemma sample_file_sel:
  "file_name sample_file = ''sample.png''" "file_type sample_file = ''image/png''"
  by (simp_all add: sample_file_def)

lemma analyzeMedia_resolves:
  assumes "snd (jsonResponse env f m c) = Resolved payload"
    and "payload \<noteq> Null" and "payload \<noteq> Undefined"
  shows "\<exists>r. snd (analyzeMedia env f m c) = Resolved r"
  using assms by (simp add: analyzeMedia_of_payload analysisResult_def)

lemma scenarioA_hash:
  "calculateFileHash scenarioA_env sample_file =
     Resolved ''abc123abc123abc123abc123abc123abc123abc123abc123abc123abc123abc1''"
  by (simp add: scenarioA_env_def sample_hash)

lemma scenarioA_jsonResponse:
  "snd (jsonResponse scenarioA_env sample_file m c) = Resolved scenarioA_payload"
  by (simp add: scenarioA_env_def sample_jsonResponse response_text_or_empty_def parses_to_def)
     (simp add: scenarioA_text_def)

lemma scenarioA_resolves:
  "\<exists>r. snd (analyzeMedia scenarioA_env sample_file m c) = Resolved r"
  by (rule analyzeMedia_resolves [OF scenarioA_jsonResponse]) (simp_all add: scenarioA_payload_def)

lemma scenarioC_hash:
  "calculateFileHash scenarioC_env sample_file =
     Resolved ''abc123abc123abc123abc123abc123abc123abc123abc123abc123abc123abc1''"
  by (simp add: scenarioC_env_def sample_hash)

lemma override_hash:
  "calculateFileHash override_env sample_file =
     Resolved ''abc123abc123abc123abc123abc123abc123abc123abc123abc123abc123abc1''"
  by (simp add: override_env_def sample_hash)

lemma out_of_range_hash:
  "calculateFileHash out_of_range_env sample_file =
     Resolved ''abc123abc123abc123abc123abc123abc123abc123abc123abc123abc123abc1''"
  by (simp add: out_of_range_env_def sample_hash)

lemma unparseable_hash:
  "calculateFileHash unparseable_env sample_file =
     Resolved ''abc123abc123abc123abc123abc123abc123abc123abc123abc123abc123abc1''"
  by (simp add: unparseable_env_def sample_hash)

lemma setter_calls_map_Some: "setter_calls (map Some us) = us"
  by (induction us) simp_all

lemma setter_calls_append: "setter_calls (xs @ ys) = setter_calls xs @ setter_calls ys"
  by (induction xs rule: setter_calls.induct) simp_all

lemma setter_calls_load_models: "setter_calls (load_models_awaits env h) = load_models env h"
  by (simp add: load_models_awaits_def load_models_def Let_def)

lemma setter_calls_runAnalysis: "setter_calls (runAnalysis_awaits env app) = runAnalysis env app"
  by (simp add: runAnalysis_awaits_def runAnalysis_def setter_calls_append setter_calls_map_Some
      setter_calls_load_models Let_def split: option.splits promise.splits)

lemma run_success_rendered:
  assumes "file' app = Some f" and "calculateFileHash env f = Resolved h"
    and "snd (analyzeMedia env f (mediaTypeOf f) (contextText app)) = Resolved r"
  shows "map (\<lambda>s. (isAnalyzing (analysisState s), progress (analysisState s)))
           (rendered False app (runAnalysis_awaits env app)) =
     [(True, 0), (True, 20), (True, 40), (True, 50), (False, 100)]"
  using assms
  by (simp add: runAnalysis_awaits_def load_models_awaits_def publish_def update_defs Let_def)

lemma null_run:
  "snd (jsonResponse null_env sample_file IMAGE []) = Resolved Null"
  by (simp add: null_env_def sample_jsonResponse response_text_or_empty_def parses_to_def)

lemma null_hash:
  "calculateFileHash null_env sample_file =
     Resolved ''abc123abc123abc123abc123abc123abc123abc123abc123abc123abc123abc1''"
  by (simp add: null_env_def sample_hash)

lemma null_rejected: "snd (analyzeMedia null_env sample_file m c) =
     Rejected (JsError ''TypeError'' ''Cannot read properties of null (reading authenticityScore)'')"
proof -
  have "snd (jsonResponse null_env sample_file m c) = Resolved Null"
    by (simp add: null_env_def sample_jsonResponse response_text_or_empty_def parses_to_def)
  from analyzeMedia_of_payload [OF this] show ?thesis
    by (simp add: analysisResult_def null_env_def sample_env_def)
qed

lemma keyless_unreadable_sel:
  "API_KEY keyless_unreadable_env = None"
  "calculateFileHash keyless_unreadable_env sample_file =
     Rejected (JsError ''NotReadableError'' ''The requested file could not be read'')"
  "toLocaleTimeString keyless_unreadable_env i = ''10:15:23 PM''"
  by (simp_all add: keyless_unreadable_env_def keyless_env_def sample_env_def calculateFileHash_def)

section \<open>Failure of a stage\<close>

text \<open>
  Claim C1, as amended. When the digest or the classification call rejects, the run
  appends a log line that ends with the string form of the thrown value, sets
  \<open>isAnalyzing\<close> to false and leaves the report as it was in every state of the run.
  The step label is not changed by the failure: it stays \<open>INIT\<close> (progress 0) after a
  failed digest and \<open>LOADING_MODELS\<close> (progress 50) after a failed classification.
  The program has no step named \<open>FAILED\<close>.
\<close>

theorem failed_run_state:
  assumes "file' app = Some f"
    and "calculateFileHash env f = Rejected e \<or>
         (\<exists>h. calculateFileHash env f = Resolved h \<and>
              snd (analyzeMedia env f (mediaTypeOf f) (contextText app)) = Rejected e)"
  shows "(let final = analysisState (final_state app (runAnalysis env app))
          in \<not> isAnalyzing final \<and>
             (\<exists>t. last (logs final) = ''['' @ t @ ''] CRITICAL ERROR: '' @ to_string e) \<and>
             (currentStep final, progress final) =
               (case calculateFileHash env f of
                  Resolved h \<Rightarrow> (''LOADING_MODELS'', 50)
                | _ \<Rightarrow> (''INIT'', 0)) \<and>
             currentStep final \<noteq> ''FAILED'') \<and>
         report (final_state app (runAnalysis env app)) = report app \<and>
         report ` set (snapshots app (runAnalysis env app)) = {report app}"
proof -
  have unchanged: "report ` set (snapshots app (runAnalysis env app)) = {report app}"
    using assms by (intro run_reports_unchanged) auto
  from assms(2) show ?thesis
  proof
    assume "calculateFileHash env f = Rejected e"
    then show ?thesis
      using run_hash_rejected [OF assms(1), of env e] unchanged by (simp add: Let_def)
  next
    assume "\<exists>h. calculateFileHash env f = Resolved h \<and>
              snd (analyzeMedia env f (mediaTypeOf f) (contextText app)) = Rejected e"
    then obtain h where "calculateFileHash env f = Resolved h"
      and "snd (analyzeMedia env f (mediaTypeOf f) (contextText app)) = Rejected e"
      by blast
    then show ?thesis
      using run_inference_rejected [OF assms(1), of env h e] unchanged by (simp add: Let_def)
  qed
qed

lemma sample_analyze_rejected:
  "snd (analyzeMedia (sample_env (Some ''key'') (Rejected e) p) sample_file m c) = Rejected e"
  by (rule analyzeMedia_rejected) (rule sample_jsonResponse_rejected)

theorem failed_run_state_witness:
  "(let final = analysisState (final_state sample_app
       (runAnalysis scenarioB_env sample_app))
    in \<not> isAnalyzing final \<and>
       (\<exists>t. last (logs final) = ''['' @ t @ ''] CRITICAL ERROR: network timeout'') \<and>
       (currentStep final, progress final) = (''LOADING_MODELS'', 50)) \<and>
   report ` set (snapshots sample_app
       (runAnalysis scenarioB_env sample_app)) = {None}"
  using failed_run_state [of sample_app sample_file
      scenarioB_env
      "Reason ''network timeout''"]
  by (simp add: scenarioB_env_def sample_app_sel sample_hash sample_mediaType
      sample_analyze_rejected Let_def)

text \<open>
  Claim C1 as stated fails in the specification's Scenario B: the classification call
  rejects with "network timeout" and the step label of the final state is
  \<open>LOADING_MODELS\<close>, not \<open>FAILED\<close>.
\<close>

theorem failed_run_state_counterexample:
  "snd (analyzeMedia scenarioB_env sample_file IMAGE []) = Rejected (Reason ''network timeout'') \<and>
   currentStep (analysisState (final_state sample_app
       (runAnalysis scenarioB_env sample_app))) = ''LOADING_MODELS'' \<and>
   currentStep (analysisState (final_state sample_app
       (runAnalysis scenarioB_env sample_app))) \<noteq> ''FAILED''"
  using run_inference_rejected [of sample_app sample_file
      scenarioB_env
      _ "Reason ''network timeout''"]
  by (simp add: scenarioB_env_def sample_app_sel sample_hash sample_mediaType
      sample_analyze_rejected)

section \<open>Starting while a run is in flight\<close>

text \<open>
  Claim C2, as amended. \<open>runAnalysis\<close> has no guard on \<open>isAnalyzing\<close>; its only guard
  is the missing file. While \<open>isAnalyzing\<close> is true the button that calls it is not
  rendered, so a click makes no update and the state stays as it is. Called directly,
  \<open>runAnalysis\<close> does nothing when no file is selected, and otherwise its first update
  replaces the analysis state by the initial one of a fresh run.
\<close>

theorem start_while_analyzing:
  assumes "isAnalyzing (analysisState app)"
  shows "\<not> scan_button_rendered app \<and>
         click_scan_button env app = [] \<and>
         snapshots app (click_scan_button env app) = [] \<and>
         final_state app (click_scan_button env app) = app \<and>
         (case file' app of
            None \<Rightarrow> runAnalysis env app = []
          | Some f \<Rightarrow>
              analysisState (hd (snapshots app (runAnalysis env app))) =
                \<lparr>isAnalyzing = True, progress = 0, currentStep = ''INIT'',
                 logs = [''Initializing core modules...'']\<rparr>)"
  using assms
  by (auto simp add: scan_button_rendered_def click_scan_button_def runAnalysis_no_file
      runAnalysis_first_update split: option.splits)

theorem start_while_analyzing_witness:
  "isAnalyzing (analysisState running_app) \<and>
   \<not> scan_button_rendered running_app \<and>
   final_state running_app (click_scan_button
     scenarioC_env running_app) =
     running_app"
  using start_while_analyzing [of running_app
      scenarioC_env]
  by (simp add: sample_app_sel)

text \<open>
  Claim C2 as stated fails on \<open>runAnalysis\<close> itself: called in a state that is
  analysing at progress 50 with three log lines, its first update puts progress back to
  0 and replaces the log by the single initial line.
\<close>

theorem start_while_analyzing_counterexample:
  "isAnalyzing (analysisState running_app) \<and>
   progress (analysisState running_app) = 50 \<and>
   length (logs (analysisState running_app)) = 3 \<and>
   analysisState (hd (snapshots running_app (runAnalysis
     scenarioC_env running_app))) =
     \<lparr>isAnalyzing = True, progress = 0, currentStep = ''INIT'',
      logs = [''Initializing core modules...'']\<rparr>"
  using runAnalysis_first_update [of running_app sample_file
      scenarioC_env]
  by (simp add: sample_app_sel) (simp add: running_app_def)

section \<open>Progress of a successful run\<close>

text \<open>
  Claim C6, as amended. In a run whose digest and classification both resolve, progress
  never decreases. The states after the successive setter calls carry the values 0, 20,
  40, 50, 90, 100 in this order and no other, with \<open>isAnalyzing\<close> true up to 90 and
  false from the call that sets 100. The states that are rendered, one where the run is
  suspended at each \<^verbatim>\<open>await\<close> and one at its end, carry 0, 20, 40, 50, 100: the
  value 90 is set and replaced by 100 between the same two suspensions, after the
  classification call has resolved, and no rendered state holds it.
\<close>

theorem progress_of_successful_run:
  assumes "file' app = Some f"
    and "calculateFileHash env f = Resolved h"
    and "snd (analyzeMedia env f (mediaTypeOf f) (contextText app)) = Resolved r"
  shows "(let states = snapshots app (runAnalysis env app);
              ps = map (\<lambda>s. progress (analysisState s)) states
          in sorted ps \<and>
             remdups_adj ps = [0, 20, 40, 50, 90, 100] \<and>
             map (\<lambda>s. (isAnalyzing (analysisState s), progress (analysisState s))) states =
               [(True, 0), (True, 0), (True, 20), (True, 20), (True, 20), (True, 40),
                (True, 40), (True, 50), (True, 50), (True, 90), (True, 90), (True, 90),
                (False, 100), (False, 100), (False, 100)]) \<and>
         setter_calls (runAnalysis_awaits env app) = runAnalysis env app \<and>
         (let seen = rendered False app (runAnalysis_awaits env app);
              qs = map (\<lambda>s. progress (analysisState s)) seen
          in sorted qs \<and>
             qs = [0, 20, 40, 50, 100] \<and>
             map (\<lambda>s. (isAnalyzing (analysisState s), progress (analysisState s))) seen =
               [(True, 0), (True, 20), (True, 40), (True, 50), (False, 100)])"
proof -
  let ?states = "snapshots app (runAnalysis env app)"
  let ?pairs = "map (\<lambda>s. (isAnalyzing (analysisState s), progress (analysisState s))) ?states"
  have pairs: "?pairs =
      [(True, 0), (True, 0), (True, 20), (True, 20), (True, 20), (True, 40),
       (True, 40), (True, 50), (True, 50), (True, 90), (True, 90), (True, 90),
       (False, 100), (False, 100), (False, 100)]"
    using assms by (rule run_success_trace)
  have "map (\<lambda>s. progress (analysisState s)) ?states = map snd ?pairs"
    by (simp add: comp_def)
  then have progress_values: "map (\<lambda>s. progress (analysisState s)) ?states =
      [0, 0, 20, 20, 20, 40, 40, 50, 50, 90, 90, 90, 100, 100, 100]"
    by (simp only: pairs) simp
  let ?seen = "rendered False app (runAnalysis_awaits env app)"
  let ?seen_pairs = "map (\<lambda>s. (isAnalyzing (analysisState s), progress (analysisState s))) ?seen"
  have seen_pairs: "?seen_pairs = [(True, 0), (True, 20), (True, 40), (True, 50), (False, 100)]"
    using assms by (rule run_success_rendered)
  have "map (\<lambda>s. progress (analysisState s)) ?seen = map snd ?seen_pairs"
    by (simp add: comp_def)
  then have seen_values: "map (\<lambda>s. progress (analysisState s)) ?seen = [0, 20, 40, 50, 100]"
    by (simp only: seen_pairs) simp
  have first: "(let states = ?states; ps = map (\<lambda>s. progress (analysisState s)) states
          in sorted ps \<and>
             remdups_adj ps = [0, 20, 40, 50, 90, 100] \<and>
             map (\<lambda>s. (isAnalyzing (analysisState s), progress (analysisState s))) states =
               [(True, 0), (True, 0), (True, 20), (True, 20), (True, 20), (True, 40),
                (True, 40), (True, 50), (True, 50), (True, 90), (True, 90), (True, 90),
                (False, 100), (False, 100), (False, 100)])"
    unfolding Let_def progress_values using pairs by simp
  have second: "(let seen = ?seen; qs = map (\<lambda>s. progress (analysisState s)) seen
          in sorted qs \<and>
             qs = [0, 20, 40, 50, 100] \<and>
             map (\<lambda>s. (isAnalyzing (analysisState s), progress (analysisState s))) seen =
               [(True, 0), (True, 20), (True, 40), (True, 50), (False, 100)])"
    unfolding Let_def seen_values using seen_pairs by simp
  from first second setter_calls_runAnalysis [of env app] show ?thesis
    by (intro conjI)
qed

theorem progress_of_successful_run_witness:
  "remdups_adj (map (\<lambda>s. progress (analysisState s))
      (snapshots sample_app (runAnalysis scenarioA_env sample_app))) = [0, 20, 40, 50, 90, 100] \<and>
   sorted (map (\<lambda>s. progress (analysisState s))
      (snapshots sample_app (runAnalysis scenarioA_env sample_app))) \<and>
   map (\<lambda>s. (isAnalyzing (analysisState s), progress (analysisState s)))
      (rendered False sample_app (runAnalysis_awaits scenarioA_env sample_app)) =
     [(True, 0), (True, 20), (True, 40), (True, 50), (False, 100)]"
proof -
  obtain r where "snd (analyzeMedia scenarioA_env sample_file (mediaTypeOf sample_file)
      (contextText sample_app)) = Resolved r"
    using scenarioA_resolves by blast
  from progress_of_successful_run [OF sample_app_sel(1) scenarioA_hash this]
  show ?thesis by (simp add: Let_def)
qed

text \<open>
  Claim C6 as stated fails on the observed states: in the successful run of Scenario A,
  which publishes a report, the rendered states carry the progress values 0, 20, 40, 50,
  100, not 0, 20, 40, 50, 90, 100.
\<close>

theorem observed_progress_counterexample:
  "report (final_state sample_app (runAnalysis scenarioA_env sample_app)) \<noteq> None \<and>
   map (\<lambda>s. progress (analysisState s))
      (rendered False sample_app (runAnalysis_awaits scenarioA_env sample_app)) =
     [0, 20, 40, 50, 100]"
proof -
  obtain r where resolved: "snd (analyzeMedia scenarioA_env sample_file (mediaTypeOf sample_file)
      (contextText sample_app)) = Resolved r"
    using scenarioA_resolves by blast
  have "map (\<lambda>s. progress (analysisState s))
      (rendered False sample_app (runAnalysis_awaits scenarioA_env sample_app)) =
    map snd (map (\<lambda>s. (isAnalyzing (analysisState s), progress (analysisState s)))
      (rendered False sample_app (runAnalysis_awaits scenarioA_env sample_app)))"
    by (simp add: comp_def)
  also have "\<dots> = [0, 20, 40, 50, 100]"
    by (simp only: run_success_rendered [OF sample_app_sel(1) scenarioA_hash resolved]) simp
  finally show ?thesis
    using run_success_report [OF sample_app_sel(1) scenarioA_hash resolved] by simp
qed

section \<open>The report across a failed run\<close>

text \<open>
  Claim C7. When the classification call rejects after the digest has resolved, every
  state of the run, the final one included, holds the report that was there when the
  run started.
\<close>

theorem failed_inference_keeps_report:
  assumes "file' app = Some f"
    and "calculateFileHash env f = Resolved h"
    and "snd (analyzeMedia env f (mediaTypeOf f) (contextText app)) = Rejected e"
  shows "report ` set (snapshots app (runAnalysis env app)) = {report app} \<and>
         report (final_state app (runAnalysis env app)) = report app"
  using run_reports_unchanged [OF assms(1), of env] run_final_report_unchanged [OF assms(1), of env]
    assms(3)
  by simp

theorem failed_inference_keeps_report_witness:
  "report (final_state (sample_app\<lparr>report := Some earlier_report\<rparr>)
      (runAnalysis scenarioB_env (sample_app\<lparr>report := Some earlier_report\<rparr>))) =
     Some earlier_report \<and>
   report ` set (snapshots (sample_app\<lparr>report := Some earlier_report\<rparr>)
      (runAnalysis scenarioB_env (sample_app\<lparr>report := Some earlier_report\<rparr>))) =
     {Some earlier_report}"
  using failed_inference_keeps_report [of "sample_app\<lparr>report := Some earlier_report\<rparr>"
      sample_file scenarioB_env _ "Reason ''network timeout''"]
  by (simp add: scenarioB_env_def sample_app_sel sample_hash sample_mediaType
      sample_analyze_rejected)

section \<open>The missing API key\<close>

text \<open>
  Claim C10, as amended. When the environment's API key is absent or empty,
  \<open>analyzeMedia\<close> rejects with the error "API Key is missing." for every file, media
  type and context, having neither read the file nor called the remote model. Hence no
  run on such a platform publishes a report. A run whose digest resolved fails at the
  classification call, whatever the file: \<open>isAnalyzing\<close> false, progress 50, the step
  label still \<open>LOADING_MODELS\<close> (the label \<open>INFERENCE\<close> is set only after the call
  has resolved) and the log closed by the line for that error. A run whose digest
  rejects fails before, at the hash, with the digest's error, progress 0 and the label
  \<open>INIT\<close>.
\<close>

theorem missing_api_key:
  assumes "API_KEY env = None \<or> API_KEY env = Some []"
  shows "analyzeMedia env f m c = ([], Rejected (JsError ''Error'' ''API Key is missing.'')) \<and>
         (\<forall>app. report (final_state app (runAnalysis env app)) = report app) \<and>
         (\<forall>app g h. file' app = Some g \<and> calculateFileHash env g = Resolved h \<longrightarrow>
            analysisState (final_state app (runAnalysis env app)) =
              \<lparr>isAnalyzing = False, progress = 50, currentStep = ''LOADING_MODELS'',
               logs = [''Initializing core modules...'',
                 ''['' @ toLocaleTimeString env 0 @ ''] Hashing '' @ file_name g @ '' ('' @ sizeMB g @ ''MB)...'',
                 ''['' @ toLocaleTimeString env 1 @ ''] SHA-256: '' @ take 16 h @ ''...'',
                 ''['' @ toLocaleTimeString env 2 @ ''] Loading FaceForensics++ (Xception) weights...'',
                 ''['' @ toLocaleTimeString env 3 @ ''] Initializing DeepFake-o-Matic ensemble...'',
                 ''['' @ toLocaleTimeString env 4 @ ''] Sending tensors to analysis engine...'',
                 ''['' @ toLocaleTimeString env 5 @ ''] CRITICAL ERROR: Error: API Key is missing.'']\<rparr>) \<and>
         (\<forall>app g e. file' app = Some g \<and> calculateFileHash env g = Rejected e \<longrightarrow>
            analysisState (final_state app (runAnalysis env app)) =
              \<lparr>isAnalyzing = False, progress = 0, currentStep = ''INIT'',
               logs = [''Initializing core modules...'',
                 ''['' @ toLocaleTimeString env 0 @ ''] Hashing '' @ file_name g @ '' ('' @ sizeMB g @ ''MB)...'',
                 ''['' @ toLocaleTimeString env 1 @ ''] CRITICAL ERROR: '' @ to_string e]\<rparr>)"
proof -
  from assms have key: "GEMINI_API_KEY env = []"
    by (simp add: empty_key)
  have rejects: "analyzeMedia env g m' c' = ([], Rejected (JsError ''Error'' ''API Key is missing.''))"
    for g m' c'
    using key by (rule analyzeMedia_no_key)
  have "report (final_state app (runAnalysis env app)) = report app" for app
  proof (cases "file' app")
    case None
    then show ?thesis by (simp add: runAnalysis_no_file)
  next
    case (Some g)
    then show ?thesis by (rule run_final_report_unchanged) (simp add: rejects)
  qed
  moreover have "analysisState (final_state app (runAnalysis env app)) =
              \<lparr>isAnalyzing = False, progress = 50, currentStep = ''LOADING_MODELS'',
               logs = [''Initializing core modules...'',
                 ''['' @ toLocaleTimeString env 0 @ ''] Hashing '' @ file_name g @ '' ('' @ sizeMB g @ ''MB)...'',
                 ''['' @ toLocaleTimeString env 1 @ ''] SHA-256: '' @ take 16 h @ ''...'',
                 ''['' @ toLocaleTimeString env 2 @ ''] Loading FaceForensics++ (Xception) weights...'',
                 ''['' @ toLocaleTimeString env 3 @ ''] Initializing DeepFake-o-Matic ensemble...'',
                 ''['' @ toLocaleTimeString env 4 @ ''] Sending tensors to analysis engine...'',
                 ''['' @ toLocaleTimeString env 5 @ ''] CRITICAL ERROR: Error: API Key is missing.'']\<rparr>"
    if "file' app = Some g" and "calculateFileHash env g = Resolved h" for app g h
    using run_inference_rejected [OF that, of "JsError ''Error'' ''API Key is missing.''"]
    by (simp add: rejects)
  moreover have "analysisState (final_state app (runAnalysis env app)) =
              \<lparr>isAnalyzing = False, progress = 0, currentStep = ''INIT'',
               logs = [''Initializing core modules...'',
                 ''['' @ toLocaleTimeString env 0 @ ''] Hashing '' @ file_name g @ '' ('' @ sizeMB g @ ''MB)...'',
                 ''['' @ toLocaleTimeString env 1 @ ''] CRITICAL ERROR: '' @ to_string e]\<rparr>"
    if "file' app = Some g" and "calculateFileHash env g = Rejected e" for app g e
    using run_hash_rejected [OF that] by simp
  ultimately show ?thesis
    using rejects by blast
qed

theorem missing_api_key_witness:
  "analyzeMedia keyless_env sample_file IMAGE [] =
     ([], Rejected (JsError ''Error'' ''API Key is missing.'')) \<and>
   report (final_state sample_app (runAnalysis keyless_env sample_app)) = None \<and>
   analysisState (final_state sample_app (runAnalysis keyless_env sample_app)) =
     \<lparr>isAnalyzing = False, progress = 50, currentStep = ''LOADING_MODELS'',
      logs = [''Initializing core modules...'',
              ''[10:15:23 PM] Hashing sample.png (2.00MB)...'',
              ''[10:15:23 PM] SHA-256: abc123abc123abc1...'',
              ''[10:15:23 PM] Loading FaceForensics++ (Xception) weights...'',
              ''[10:15:23 PM] Initializing DeepFake-o-Matic ensemble...'',
              ''[10:15:23 PM] Sending tensors to analysis engine...'',
              ''[10:15:23 PM] CRITICAL ERROR: Error: API Key is missing.'']\<rparr> \<and>
   progress (analysisState (final_state sample_app
     (runAnalysis keyless_unreadable_env sample_app))) = 0 \<and>
   currentStep (analysisState (final_state sample_app
     (runAnalysis keyless_unreadable_env sample_app))) = ''INIT''"
proof -
  have key: "API_KEY keyless_env = None \<or> API_KEY keyless_env = Some []"
    by (simp add: keyless_env_def sample_env_sel)
  have hash: "file' sample_app = Some sample_file \<and>
      calculateFileHash keyless_env sample_file =
        Resolved ''abc123abc123abc123abc123abc123abc123abc123abc123abc123abc123abc1''"
    by (simp add: keyless_env_def sample_app_sel sample_hash)
  from missing_api_key [OF key, of sample_file IMAGE "[]"] hash
  have "analyzeMedia keyless_env sample_file IMAGE [] =
      ([], Rejected (JsError ''Error'' ''API Key is missing.''))"
    and "report (final_state sample_app (runAnalysis keyless_env sample_app)) = report sample_app"
    and "analysisState (final_state sample_app (runAnalysis keyless_env sample_app)) =
      \<lparr>isAnalyzing = False, progress = 50, currentStep = ''LOADING_MODELS'',
       logs = [''Initializing core modules...'',
         ''['' @ toLocaleTimeString keyless_env 0 @ ''] Hashing '' @ file_name sample_file @ '' ('' @ sizeMB sample_file @ ''MB)...'',
         ''['' @ toLocaleTimeString keyless_env 1 @ ''] SHA-256: '' @
            take 16 ''abc123abc123abc123abc123abc123abc123abc123abc123abc123abc123abc1'' @ ''...'',
         ''['' @ toLocaleTimeString keyless_env 2 @ ''] Loading FaceForensics++ (Xception) weights...'',
         ''['' @ toLocaleTimeString keyless_env 3 @ ''] Initializing DeepFake-o-Matic ensemble...'',
         ''['' @ toLocaleTimeString keyless_env 4 @ ''] Sending tensors to analysis engine...'',
         ''['' @ toLocaleTimeString keyless_env 5 @ ''] CRITICAL ERROR: Error: API Key is missing.'']\<rparr>"
    by blast+
  then have resolved_part:
    "analyzeMedia keyless_env sample_file IMAGE [] =
       ([], Rejected (JsError ''Error'' ''API Key is missing.'')) \<and>
     report (final_state sample_app (runAnalysis keyless_env sample_app)) = None \<and>
     analysisState (final_state sample_app (runAnalysis keyless_env sample_app)) =
       \<lparr>isAnalyzing = False, progress = 50, currentStep = ''LOADING_MODELS'',
        logs = [''Initializing core modules...'',
                ''[10:15:23 PM] Hashing sample.png (2.00MB)...'',
                ''[10:15:23 PM] SHA-256: abc123abc123abc1...'',
                ''[10:15:23 PM] Loading FaceForensics++ (Xception) weights...'',
                ''[10:15:23 PM] Initializing DeepFake-o-Matic ensemble...'',
                ''[10:15:23 PM] Sending tensors to analysis engine...'',
                ''[10:15:23 PM] CRITICAL ERROR: Error: API Key is missing.'']\<rparr>"
    by (simp add: keyless_env_def sample_env_sel sample_app_sel sample_file_sel sample_sizeMB)
  have key2: "API_KEY keyless_unreadable_env = None \<or> API_KEY keyless_unreadable_env = Some []"
    by (simp add: keyless_unreadable_sel)
  have unreadable: "file' sample_app = Some sample_file \<and>
      calculateFileHash keyless_unreadable_env sample_file =
        Rejected (JsError ''NotReadableError'' ''The requested file could not be read'')"
    by (simp add: sample_app_sel keyless_unreadable_sel)
  from missing_api_key [OF key2, of sample_file IMAGE "[]"] unreadable
  have "analysisState (final_state sample_app (runAnalysis keyless_unreadable_env sample_app)) =
      \<lparr>isAnalyzing = False, progress = 0, currentStep = ''INIT'',
       logs = [''Initializing core modules...'',
         ''['' @ toLocaleTimeString keyless_unreadable_env 0 @ ''] Hashing '' @ file_name sample_file @ '' ('' @ sizeMB sample_file @ ''MB)...'',
         ''['' @ toLocaleTimeString keyless_unreadable_env 1 @ ''] CRITICAL ERROR: '' @
            to_string (JsError ''NotReadableError'' ''The requested file could not be read'')]\<rparr>"
    by blast
  then have "progress (analysisState (final_state sample_app
        (runAnalysis keyless_unreadable_env sample_app))) = 0 \<and>
      currentStep (analysisState (final_state sample_app
        (runAnalysis keyless_unreadable_env sample_app))) = ''INIT''"
    by simp
  with resolved_part show ?thesis
    by (intro conjI) simp_all
qed

text \<open>
  Claim C10 as stated fails for a run that does not reach the classification call: with
  no API key and a file that can no longer be read, the digest rejects and the run ends
  at the hash, at progress 0 with the label \<open>INIT\<close> and the digest's error in the log;
  \<open>analyzeMedia\<close> is never called.
\<close>

theorem missing_api_key_counterexample:
  "API_KEY keyless_unreadable_env = None \<and>
   analysisState (final_state sample_app (runAnalysis keyless_unreadable_env sample_app)) =
     \<lparr>isAnalyzing = False, progress = 0, currentStep = ''INIT'',
      logs = [''Initializing core modules...'',
              ''[10:15:23 PM] Hashing sample.png (2.00MB)...'',
              ''[10:15:23 PM] CRITICAL ERROR: NotReadableError: The requested file could not be read'']\<rparr>"
  using run_hash_rejected [OF sample_app_sel(1) keyless_unreadable_sel(2)]
  by (simp add: keyless_unreadable_sel sample_file_sel sample_sizeMB sample_app_sel)

section \<open>The published report\<close>

text \<open>
  Claim C3, as amended. Let a run succeed on a raw payload, which is then a parsed
  response other than null. A report is published, and every field that the payload does
  not have holds its default in it: 0, false, the empty array, the empty string, the
  sentinel "Analysis failed.", and for the metadata the two computed entries alone. For
  the empty payload the whole report is the defaulted one.
\<close>

theorem absent_fields_are_defaulted:
  assumes "file' app = Some f"
    and "calculateFileHash env f = Resolved h"
    and "snd (jsonResponse env f (mediaTypeOf f) (contextText app)) = Resolved payload"
    and "payload \<noteq> Null" and "payload \<noteq> Undefined"
  shows "\<exists>rep. report (final_state app (runAnalysis env app)) = Some rep \<and>
     (get_prop payload ''authenticityScore'' = Undefined \<longrightarrow> authenticityScore rep = JNum (Num 0)) \<and>
     (get_prop payload ''isManipulated'' = Undefined \<longrightarrow> isManipulated rep = JBool False) \<and>
     (get_prop payload ''manipulationType'' = Undefined \<longrightarrow> manipulationType rep = JArr []) \<and>
     (get_prop payload ''ensembleData'' = Undefined \<longrightarrow> ensembleData rep = JArr []) \<and>
     (get_prop payload ''semanticMismatchDetected'' = Undefined \<longrightarrow>
        semanticMismatchDetected rep = JBool False) \<and>
     (get_prop payload ''semanticAnalysisText'' = Undefined \<longrightarrow> semanticAnalysisText rep = JStr []) \<and>
     (get_prop payload ''reasoning'' = Undefined \<longrightarrow> reasoning rep = JStr ''Analysis failed.'') \<and>
     (get_prop payload ''suspiciousRegions'' = Undefined \<longrightarrow> suspiciousRegions rep = JArr []) \<and>
     (get_prop payload ''metadata'' = Undefined \<longrightarrow>
        metadata rep = [(''originalSize'', JStr (sizeMB f @ '' MB'')),
                        (''mimeType'', JStr (file_type f))]) \<and>
     (payload = JObj [] \<longrightarrow>
        rep = \<lparr>report_id = case_id (Date_now env), fileName = file_name f,
               fileType = mediaTypeOf f, timestamp = toISOString env, fileHash = h,
               authenticityScore = JNum (Num 0), isManipulated = JBool False,
               manipulationType = JArr [], ensembleData = JArr [],
               semanticMismatchDetected = JBool False, semanticAnalysisText = JStr [],
               reasoning = JStr ''Analysis failed.'', suspiciousRegions = JArr [],
               metadata = [(''originalSize'', JStr (sizeMB f @ '' MB'')),
                           (''mimeType'', JStr (file_type f))]\<rparr>)"
  unfolding published_report [OF assms]
  by (simp add: js_or_def)

theorem absent_fields_are_defaulted_witness:
  "report (final_state sample_app (runAnalysis scenarioC_env sample_app)) =
     Some \<lparr>report_id = ''CASE-123456'', fileName = ''sample.png'', fileType = IMAGE,
            timestamp = ''2023-11-14T22:15:23.456Z'',
            fileHash = ''abc123abc123abc123abc123abc123abc123abc123abc123abc123abc123abc1'',
            authenticityScore = JNum (Num 0), isManipulated = JBool False,
            manipulationType = JArr [], ensembleData = JArr [],
            semanticMismatchDetected = JBool False, semanticAnalysisText = JStr [],
            reasoning = JStr ''Analysis failed.'', suspiciousRegions = JArr [],
            metadata = [(''originalSize'', JStr ''2.00 MB''), (''mimeType'', JStr ''image/png'')]\<rparr>"
proof -
  have "snd (jsonResponse scenarioC_env sample_file (mediaTypeOf sample_file)
      (contextText sample_app)) = Resolved (JObj [])"
    by (simp add: scenarioC_env_def sample_jsonResponse response_text_or_empty_def parses_to_def)
  from absent_fields_are_defaulted [OF sample_app_sel(1) scenarioC_hash this]
  show ?thesis
    by (auto simp add: scenarioC_env_def sample_case_id sample_env_sel sample_file_sel
        sample_mediaType sample_sizeMB)
qed

text \<open>
  Claim C3 as stated fails for the payload null: the remote model answers with the JSON
  text \<^verbatim>\<open>null\<close>, every field is absent from it, and reading its first property
  throws a TypeError, so the run fails and no report is published.
\<close>

theorem null_payload_counterexample:
  "snd (jsonResponse null_env sample_file IMAGE []) = Resolved Null \<and>
   report (final_state sample_app (runAnalysis null_env sample_app)) = None \<and>
   analysisState (final_state sample_app (runAnalysis null_env sample_app)) =
     \<lparr>isAnalyzing = False, progress = 50, currentStep = ''LOADING_MODELS'',
      logs = [''Initializing core modules...'',
              ''[10:15:23 PM] Hashing sample.png (2.00MB)...'',
              ''[10:15:23 PM] SHA-256: abc123abc123abc1...'',
              ''[10:15:23 PM] Loading FaceForensics++ (Xception) weights...'',
              ''[10:15:23 PM] Initializing DeepFake-o-Matic ensemble...'',
              ''[10:15:23 PM] Sending tensors to analysis engine...'',
              ''[10:15:23 PM] CRITICAL ERROR: TypeError: Cannot read properties of null (reading authenticityScore)'']\<rparr>"
  using run_inference_rejected [OF sample_app_sel(1) null_hash null_rejected] null_run
  by (simp add: null_env_def sample_env_sel sample_app_sel sample_file_sel sample_sizeMB)

text \<open>
  Claim C4. Let a run succeed on a raw payload whose \<open>metadata\<close> is an object. Read as a
  map, the metadata of the published report is the payload's metadata with
  \<open>originalSize\<close> set to the size in MB with two decimals followed by " MB" and
  \<open>mimeType\<close> set to the file's declared type: the two computed entries replace
  entries of the same name, and every other entry of the payload is kept.
\<close>

theorem computed_metadata_overrides:
  assumes "file' app = Some f"
    and "calculateFileHash env f = Resolved h"
    and "snd (jsonResponse env f (mediaTypeOf f) (contextText app)) = Resolved payload"
    and "payload \<noteq> Null" and "payload \<noteq> Undefined"
    and "get_prop payload ''metadata'' = JObj md"
  shows "\<exists>rep. report (final_state app (runAnalysis env app)) = Some rep \<and>
     map_of (metadata rep) =
       (map_of md)(''originalSize'' \<mapsto> JStr (sizeMB f @ '' MB''),
                   ''mimeType'' \<mapsto> JStr (file_type f)) \<and>
     map_of (metadata rep) ''originalSize'' = Some (JStr (sizeMB f @ '' MB'')) \<and>
     map_of (metadata rep) ''mimeType'' = Some (JStr (file_type f)) \<and>
     (\<forall>k. k \<noteq> ''originalSize'' \<and> k \<noteq> ''mimeType'' \<longrightarrow>
          map_of (metadata rep) k = map_of md k)"
  unfolding published_report [OF assms(1-5)]
  by (simp add: assms(6) js_or_def update_conv')

theorem computed_metadata_overrides_witness:
  "\<exists>rep. report (final_state sample_app (runAnalysis override_env sample_app)) = Some rep \<and>
     map_of (metadata rep) ''originalSize'' = Some (JStr ''2.00 MB'') \<and>
     map_of (metadata rep) ''mimeType'' = Some (JStr ''image/png'') \<and>
     map_of (metadata rep) ''estimatedDevice'' = Some (JStr ''Pixel 7'')"
proof -
  have payload: "snd (jsonResponse override_env sample_file (mediaTypeOf sample_file)
      (contextText sample_app)) = Resolved override_payload"
    by (simp add: override_env_def sample_jsonResponse response_text_or_empty_def parses_to_def)
       (simp add: override_text_def)
  have md: "get_prop override_payload ''metadata'' =
      JObj [(''originalSize'', JStr ''1 GB''), (''estimatedDevice'', JStr ''Pixel 7''),
            (''mimeType'', JStr ''text/html'')]"
    by (simp add: override_payload_def)
  have "override_payload \<noteq> Null" and "override_payload \<noteq> Undefined"
    by (simp_all add: override_payload_def)
  from computed_metadata_overrides [OF sample_app_sel(1) override_hash payload this md]
  obtain rep where rep: "report (final_state sample_app (runAnalysis override_env sample_app)) = Some rep"
    and size: "map_of (metadata rep) ''originalSize'' = Some (JStr (sizeMB sample_file @ '' MB''))"
    and mime: "map_of (metadata rep) ''mimeType'' = Some (JStr (file_type sample_file))"
    and others: "\<forall>k. k \<noteq> ''originalSize'' \<and> k \<noteq> ''mimeType'' \<longrightarrow>
          map_of (metadata rep) k =
            map_of [(''originalSize'', JStr ''1 GB''), (''estimatedDevice'', JStr ''Pixel 7''),
                    (''mimeType'', JStr ''text/html'')] k"
    by blast
  from others have "map_of (metadata rep) ''estimatedDevice'' = Some (JStr ''Pixel 7'')"
    by simp
  with rep size mime show ?thesis
    by (simp add: sample_file_sel sample_sizeMB)
qed

text \<open>
  Claim C9. Let a run succeed on a raw payload. A finite \<open>authenticityScore\<close> below 0 or
  above 100 stands unchanged in the published report, and so does an infinite one; an
  array of suspicious regions and an array of ensemble entries are copied whole, whatever
  numbers they hold. Nothing is clamped.
\<close>

theorem out_of_range_numbers_unchanged:
  assumes "file' app = Some f"
    and "calculateFileHash env f = Resolved h"
    and "snd (jsonResponse env f (mediaTypeOf f) (contextText app)) = Resolved payload"
    and "payload \<noteq> Null" and "payload \<noteq> Undefined"
  shows "\<exists>rep. report (final_state app (runAnalysis env app)) = Some rep \<and>
     (\<forall>x. get_prop payload ''authenticityScore'' = JNum (Num x) \<and> (x < 0 \<or> 100 < x) \<longrightarrow>
          authenticityScore rep = JNum (Num x)) \<and>
     (\<forall>n. get_prop payload ''authenticityScore'' = JNum n \<and> (n = Infinity \<or> n = NegInfinity) \<longrightarrow>
          authenticityScore rep = JNum n) \<and>
     (\<forall>regions. get_prop payload ''suspiciousRegions'' = JArr regions \<longrightarrow>
          suspiciousRegions rep = JArr regions) \<and>
     (\<forall>entries. get_prop payload ''ensembleData'' = JArr entries \<longrightarrow>
          ensembleData rep = JArr entries)"
  unfolding published_report [OF assms]
  by (auto simp add: js_or_def)

theorem out_of_range_numbers_unchanged_witness:
  "\<exists>rep. report (final_state sample_app (runAnalysis out_of_range_env sample_app)) = Some rep \<and>
     authenticityScore rep = JNum (Num 150) \<and>
     suspiciousRegions rep =
       JArr [JObj [(''x'', JNum (Num (- 5))), (''y'', JNum (Num 120)),
                   (''width'', JNum (Num 250)), (''height'', JNum (Num 10)),
                   (''label'', JStr ''jaw''), (''confidence'', JNum (Num 101))]]"
proof -
  have payload: "snd (jsonResponse out_of_range_env sample_file (mediaTypeOf sample_file)
      (contextText sample_app)) = Resolved out_of_range_payload"
    by (simp add: out_of_range_env_def sample_jsonResponse response_text_or_empty_def
        parses_to_def)
       (simp add: out_of_range_text_def)
  have score: "get_prop out_of_range_payload ''authenticityScore'' = JNum (Num 150)"
    and regions: "get_prop out_of_range_payload ''suspiciousRegions'' = JArr out_of_range_regions"
    by (simp_all add: out_of_range_payload_def)
  have "out_of_range_payload \<noteq> Null" and "out_of_range_payload \<noteq> Undefined"
    by (simp_all add: out_of_range_payload_def)
  from out_of_range_numbers_unchanged [OF sample_app_sel(1) out_of_range_hash payload this]
    score regions
  show ?thesis
    by (auto simp add: out_of_range_regions_def)
qed

section \<open>A response that is not JSON\<close>

text \<open>
  Claim C5, as amended. Only a missing or empty response text is replaced by the text of
  the empty object before parsing; any other text is handed to the parser as it is. When
  the parser refuses a non-empty response text, \<open>analyzeMedia\<close> rejects with the
  parser's error and the run fails like any other failed classification: the log ends
  with the line for that error, \<open>isAnalyzing\<close> is false, progress stays at 50 and no
  report is published.
\<close>

theorem unparseable_response_fails_run:
  assumes "file' app = Some f"
    and "calculateFileHash env f = Resolved h"
    and "GEMINI_API_KEY env \<noteq> []"
    and "fileToGenerativePart env f = Resolved part"
    and "generateContent env \<lparr>req_model = ''gemini-2.5-flash'', req_filePart = part,
           req_mediaType = mediaTypeOf f, req_contextNarrative = contextText app\<rparr> =
         Resolved (Some response_text)"
    and "response_text \<noteq> []"
    and "JSON_parse env response_text = Inl e"
  shows "response_text_or_empty None = ''{}'' \<and>
         response_text_or_empty (Some []) = ''{}'' \<and>
         response_text_or_empty (Some response_text) = response_text \<and>
         snd (analyzeMedia env f (mediaTypeOf f) (contextText app)) = Rejected e \<and>
         (let final = analysisState (final_state app (runAnalysis env app))
          in \<not> isAnalyzing final \<and> progress final = 50 \<and>
             last (logs final) =
               ''['' @ toLocaleTimeString env 5 @ ''] CRITICAL ERROR: '' @ to_string e) \<and>
         report (final_state app (runAnalysis env app)) = report app \<and>
         report ` set (snapshots app (runAnalysis env app)) = {report app}"
proof -
  have kept: "response_text_or_empty (Some response_text) = response_text"
    using assms(6) by (simp add: response_text_or_empty_def)
  have "snd (jsonResponse env f (mediaTypeOf f) (contextText app)) = Rejected e"
    using jsonResponse_of_text [OF assms(3,4,5)] assms(7) by (simp add: kept)
  then have rejected: "snd (analyzeMedia env f (mediaTypeOf f) (contextText app)) = Rejected e"
    by (rule analyzeMedia_rejected)
  have "report (final_state app (runAnalysis env app)) = report app"
    using assms(1) by (rule run_final_report_unchanged) (simp add: rejected)
  moreover have "report ` set (snapshots app (runAnalysis env app)) = {report app}"
    using assms(1) by (rule run_reports_unchanged) (simp add: rejected)
  ultimately show ?thesis
    using run_inference_rejected [OF assms(1,2) rejected] kept rejected assms(6)
    by (simp add: Let_def response_text_or_empty_def)
qed

theorem unparseable_response_fails_run_witness:
  "snd (analyzeMedia unparseable_env sample_file IMAGE []) =
     Rejected (JsError ''SyntaxError'' ''Unexpected token < in JSON at position 0'') \<and>
   report ` set (snapshots sample_app (runAnalysis unparseable_env sample_app)) = {None}"
  using unparseable_response_fails_run [of sample_app sample_file unparseable_env _
      "\<lparr>data = Some ''iVBORw0KGgo='', mimeType = ''image/png''\<rparr>"
      "''<html>502 Bad Gateway</html>''"
      "JsError ''SyntaxError'' ''Unexpected token < in JSON at position 0''"]
  by (simp add: unparseable_env_def sample_app_sel sample_hash sample_mediaType sample_part
      sample_key sample_env_sel)

text \<open>
  Claim C5 as stated fails: the remote model answers with an HTML error page, which
  \<^verbatim>\<open>JSON.parse\<close> refuses with a SyntaxError. The run ends with that error in the
  log and with no report, where the claim promises a fully defaulted report.
\<close>

theorem unparseable_response_counterexample:
  "report (final_state sample_app (runAnalysis unparseable_env sample_app)) = None \<and>
   analysisState (final_state sample_app (runAnalysis unparseable_env sample_app)) =
     \<lparr>isAnalyzing = False, progress = 50, currentStep = ''LOADING_MODELS'',
      logs = [''Initializing core modules...'',
              ''[10:15:23 PM] Hashing sample.png (2.00MB)...'',
              ''[10:15:23 PM] SHA-256: abc123abc123abc1...'',
              ''[10:15:23 PM] Loading FaceForensics++ (Xception) weights...'',
              ''[10:15:23 PM] Initializing DeepFake-o-Matic ensemble...'',
              ''[10:15:23 PM] Sending tensors to analysis engine...'',
              ''[10:15:23 PM] CRITICAL ERROR: SyntaxError: Unexpected token < in JSON at position 0'']\<rparr>"
proof -
  have "snd (jsonResponse unparseable_env sample_file m c) =
      Rejected (JsError ''SyntaxError'' ''Unexpected token < in JSON at position 0'')" for m c
    by (simp add: unparseable_env_def sample_jsonResponse)
  then have "snd (analyzeMedia unparseable_env sample_file (mediaTypeOf sample_file)
      (contextText sample_app)) =
      Rejected (JsError ''SyntaxError'' ''Unexpected token < in JSON at position 0'')"
    by (rule analyzeMedia_rejected)
  from run_inference_rejected [OF sample_app_sel(1) unparseable_hash this]
  show ?thesis
    by (simp add: unparseable_env_def sample_env_sel sample_app_sel sample_file_sel sample_sizeMB)
qed

section \<open>The case identifier\<close>

text \<open>Facts about decimal digits, for the identifier built from the clock.\<close>

lemma toString_radix_10:
  "toString_radix 10 n =
     (if n < 10 then [digit n] else toString_radix 10 (n div 10) @ [digit (n mod 10)])"
  by (simp add: toString_radix.simps)

lemma digit_inj: "a < 10 \<Longrightarrow> b < 10 \<Longrightarrow> digit a = digit b \<Longrightarrow> a = b"
  unfolding digit_def by (simp add: nth_eq_iff_index_eq)

lemma length_toString_radix_10: "10 ^ k \<le> n \<Longrightarrow> k < length (toString_radix 10 n)"
proof (induction k arbitrary: n)
  case 0
  then show ?case by (subst toString_radix_10) simp
next
  case (Suc k)
  then have "10 \<le> n"
    by (metis dual_order.trans mult_le_mono2 nat_mult_1_right one_le_numeral one_le_power
        power_Suc)
  moreover from Suc.prems have "10 ^ k \<le> n div 10"
    by (simp add: less_eq_div_iff_mult_less_eq)
  ultimately show ?case
    using Suc.IH [of "n div 10"] by (subst toString_radix_10) simp
qed

lemma slice_last_digits:
  "k \<le> length (toString_radix 10 n) \<Longrightarrow> slice_last k (toString_radix 10 n) = last_digits k n"
proof (induction k arbitrary: n)
  case 0
  then show ?case by (simp add: slice_last_def)
next
  case (Suc k)
  show ?case
  proof (cases "n < 10")
    case True
    then have "toString_radix 10 n = [digit n]"
      by (subst toString_radix_10) simp
    with Suc.prems True show ?thesis
      by (simp add: slice_last_def)
  next
    case False
    then have unfold: "toString_radix 10 n = toString_radix 10 (n div 10) @ [digit (n mod 10)]"
      by (subst toString_radix_10) simp
    with Suc.prems have len: "k \<le> length (toString_radix 10 (n div 10))"
      by simp
    then have "slice_last (Suc k) (toString_radix 10 n) =
        slice_last k (toString_radix 10 (n div 10)) @ [digit (n mod 10)]"
      by (simp add: unfold slice_last_def Suc_diff_le)
    with Suc.IH [OF len] show ?thesis
      by simp
  qed
qed

lemma decimal_split_unique:
  fixes a b c d :: nat
  assumes "10 * a + b = 10 * c + d" and "b < 10" and "d < 10"
  shows "a = c \<and> b = d"
  using assms by presburger

lemma length_last_digits: "length (last_digits k n) = k"
  by (induction k arbitrary: n) simp_all

lemma last_digits_eq_iff: "(last_digits k m = last_digits k n) = (m mod 10 ^ k = n mod 10 ^ k)"
proof (induction k arbitrary: m n)
  case 0
  then show ?case by simp
next
  case (Suc k)
  have split: "x mod 10 ^ Suc k = 10 * (x div 10 mod 10 ^ k) + x mod 10" for x :: nat
    by (simp add: mod_mult2_eq)
  have "(last_digits (Suc k) m = last_digits (Suc k) n) =
      (last_digits k (m div 10) = last_digits k (n div 10) \<and> digit (m mod 10) = digit (n mod 10))"
    by (simp add: length_last_digits)
  also have "\<dots> = (m div 10 mod 10 ^ k = n div 10 mod 10 ^ k \<and> m mod 10 = n mod 10)"
    using Suc.IH [of "m div 10" "n div 10"] digit_inj [of "m mod 10" "n mod 10"]
    by auto
  also have "\<dots> = (m mod 10 ^ Suc k = n mod 10 ^ Suc k)"
  proof
    assume "m div 10 mod 10 ^ k = n div 10 mod 10 ^ k \<and> m mod 10 = n mod 10"
    then show "m mod 10 ^ Suc k = n mod 10 ^ Suc k"
      by (simp only: split)
  next
    assume eq: "m mod 10 ^ Suc k = n mod 10 ^ Suc k"
    then have "10 * (m div 10 mod 10 ^ k) + m mod 10 = 10 * (n div 10 mod 10 ^ k) + n mod 10"
      by (simp only: split)
    then show "m div 10 mod 10 ^ k = n div 10 mod 10 ^ k \<and> m mod 10 = n mod 10"
      by (rule decimal_split_unique) simp_all
  qed
  finally show ?case .
qed

lemma case_id_eq_iff:
  assumes "100000 \<le> m" and "100000 \<le> n"
  shows "(case_id m = case_id n) = (m mod 1000000 = n mod 1000000)"
proof -
  have "5 < length (toString_radix 10 m)" and "5 < length (toString_radix 10 n)"
    using assms length_toString_radix_10 [of 5 m] length_toString_radix_10 [of 5 n] by simp_all
  then have "slice_last 6 (toString_radix 10 m) = last_digits 6 m"
    and "slice_last 6 (toString_radix 10 n) = last_digits 6 n"
    by (simp_all add: slice_last_digits)
  then show ?thesis
    using last_digits_eq_iff [of 6 m n] by (simp add: case_id_def)
qed

text \<open>
  Claim C8, as amended. The identifier of a report is "CASE-" followed by the last six
  decimal digits of the millisecond clock read when the report is built; it does not
  depend on the file or on the payload. For clock values of at least six digits, two
  reports carry the same identifier exactly when their clock values agree modulo
  1000000: identifiers differ for runs less than 1000 seconds apart at different
  milliseconds, and repeat when the clock values differ by a multiple of 1000 seconds.
\<close>

theorem report_ids_equal_iff:
  assumes "100000 \<le> Date_now env1" and "100000 \<le> Date_now env2"
  shows "(report_id (fullReport env1 f1 t1 h1 r1) = report_id (fullReport env2 f2 t2 h2 r2)) =
           (Date_now env1 mod 1000000 = Date_now env2 mod 1000000) \<and>
         report_id (fullReport env1 f1 t1 h1 r1) =
           ''CASE-'' @ slice_last 6 (toString_radix 10 (Date_now env1))"
  using case_id_eq_iff [OF assms] by (simp add: fullReport_def case_id_def)

theorem report_ids_equal_iff_witness:
  "report_id (fullReport scenarioA_env sample_file IMAGE ''00'' (JObj [])) = ''CASE-123456'' \<and>
   report_id (fullReport (scenarioA_env\<lparr>Date_now := 1700000123457\<rparr>) sample_file IMAGE ''00'' (JObj []))
     \<noteq> report_id (fullReport scenarioA_env sample_file IMAGE ''00'' (JObj []))"
  using report_ids_equal_iff [of scenarioA_env "scenarioA_env\<lparr>Date_now := 1700000123457\<rparr>"
      sample_file IMAGE "''00''" "JObj []" sample_file IMAGE "''00''" "JObj []"]
    report_ids_equal_iff [of "scenarioA_env\<lparr>Date_now := 1700000123457\<rparr>" scenarioA_env
      sample_file IMAGE "''00''" "JObj []" sample_file IMAGE "''00''" "JObj []"]
  by (simp add: scenarioA_env_def sample_env_def slice_last_def toString_radix.simps digit_def)

text \<open>
  Claim C8 as stated fails: two runs whose clock readings are 1700000000000 and
  1700001000000, 1000 seconds apart, both produce the identifier "CASE-000000".
\<close>

theorem report_ids_counterexample:
  "Date_now (scenarioA_env\<lparr>Date_now := 1700000000000\<rparr>) \<noteq>
     Date_now (scenarioA_env\<lparr>Date_now := 1700001000000\<rparr>) \<and>
   report_id (fullReport (scenarioA_env\<lparr>Date_now := 1700000000000\<rparr>) sample_file IMAGE
      ''00'' (JObj [])) = ''CASE-000000'' \<and>
   report_id (fullReport (scenarioA_env\<lparr>Date_now := 1700001000000\<rparr>) sample_file IMAGE
      ''00'' (JObj [])) = ''CASE-000000''"
  by (simp add: fullReport_def case_id_def slice_last_def toString_radix.simps digit_def)

end
